theory Spec2Isabelle
  imports Main "HOL-Library.Word" "HOL-Library.Sublist"
begin

section \<open>JavaScript strings\<close>

text \<open>
  A JavaScript string is a sequence of UTF-16 code units. String literals of the source
  are written with \<open>js\<close>, which maps each ASCII character of an Isabelle literal to its
  code unit; characters outside ASCII are written as explicit code units.
\<close>

type_synonym code_unit = "16 word"
type_synonym jsstring = "code_unit list"

definition js :: "string \<Rightarrow> jsstring" where
  "js s = map of_char s"

text \<open>
  \<open>String.prototype.trim\<close> removes leading and trailing WhiteSpace and LineTerminator
  code points (ECMAScript: TAB, VT, FF, ZWNBSP, the Unicode space separators, LF, CR, LS, PS).
\<close>

definition is_white_space :: "code_unit \<Rightarrow> bool" where
  "is_white_space c \<longleftrightarrow>
     c \<in> set [0x0009, 0x000A, 0x000B, 0x000C, 0x000D, 0x0020, 0x00A0, 0x1680,
              0x2000, 0x2001, 0x2002, 0x2003, 0x2004, 0x2005, 0x2006, 0x2007,
              0x2008, 0x2009, 0x200A, 0x2028, 0x2029, 0x202F, 0x205F, 0x3000, 0xFEFF]"

definition trim :: "jsstring \<Rightarrow> jsstring" where
  "trim s = rev (dropWhile is_white_space (rev (dropWhile is_white_space s)))"

text \<open>\<open>s.endsWith(t)\<close>.\<close>

definition endsWith :: "jsstring \<Rightarrow> jsstring \<Rightarrow> bool" where
  "endsWith s t = suffix t s"

text \<open>
  Truthiness of a value of type \<open>string | null | undefined\<close>: \<open>None\<close> stands for
  \<open>null\<close> and \<open>undefined\<close>, and the empty string is falsy as well.
\<close>

definition truthy :: "jsstring option \<Rightarrow> bool" where
  "truthy v = (case v of None \<Rightarrow> False | Some s \<Rightarrow> s \<noteq> [])"

text \<open>\<open>v || d\<close> for such a value and a string \<open>d\<close>.\<close>

definition or_else :: "jsstring option \<Rightarrow> jsstring \<Rightarrow> jsstring" where
  "or_else v d = (case v of None \<Rightarrow> d | Some s \<Rightarrow> if s = [] then d else s)"

text \<open>\<open>s.replace(/"/g, '""')\<close>: every double quote is doubled.\<close>

definition double_quotes :: "jsstring \<Rightarrow> jsstring" where
  "double_quotes s = concat (map (\<lambda>c. if c = 0x22 then [0x22, 0x22] else [c]) s)"


section \<open>types.ts\<close>

datatype AppMode = IMAGE | SEARCH | SELF_AUDIT

datatype PitchTone = STANDARD_TONE | PAIN_FOCUSED

datatype PitchLength = SHORT | STANDARD_LENGTH

datatype OutputLanguage =
  English | Spanish | French | Portuguese_Portugal | Portuguese_Brazil
  | German | Italian | Dutch | Chinese | Japanese

text \<open>The string each \<open>OutputLanguage\<close> value is at run time.\<close>

fun languageName :: "OutputLanguage \<Rightarrow> jsstring" where
  "languageName English = js ''English''"
| "languageName Spanish = js ''Spanish''"
| "languageName French = js ''French''"
| "languageName Portuguese_Portugal = js ''Portuguese (Portugal)''"
| "languageName Portuguese_Brazil = js ''Portuguese (Brazil)''"
| "languageName German = js ''German''"
| "languageName Italian = js ''Italian''"
| "languageName Dutch = js ''Dutch''"
| "languageName Chinese = js ''Chinese''"
| "languageName Japanese = js ''Japanese''"


section \<open>services/geminiService.ts: prompt assembly\<close>

text \<open>The four template literals of \<open>getPitchInstructions\<close>, in the order of the source.\<close>

definition lengthShort :: jsstring where
  "lengthShort =
     js ''\<newline>'' @
     js ''- **Length:** Keep the pitch very concise (under 100 words). Focus on punchy sentences.''"

definition lengthStandard :: jsstring where
  "lengthStandard =
     js ''\<newline>'' @
     js ''- **Length:** Standard email length (150-200 words).''"

definition strategyPainFocused :: jsstring where
  "strategyPainFocused =
     js ''\<newline>'' @
     js ''    \<newline>'' @
     js ''**Strategy: High-Impact / Pain-Focused**\<newline>'' @
     js ''    - **Immediate Focus on Pain/Cost:** Start by directly appealing to the prospect's lost time, lost money, or lost customers. Do not start with \"I hope you are well\" or generic intros. Jump straight to the problem.\<newline>'' @
     js ''    - **Extreme Personalization (Proof at a Glance):** Use a specific detail observed in the analysis (e.g., a specific product on the shelf, the specific design of the menu, the awards on the wall) as immediate proof this isn't spam.\<newline>'' @
     js ''    - **Low-Risk CTA (Micro-Commitment):** Do NOT ask for a \"10-minute chat\". Instead, offer immediate exit value (e.g., \"Can I send you a 30-second video showing how N2 Digital fixes this?\" or \"Reply 'yes' and I'll send the mockup\").\<newline>'' @
     js ''    ''"

definition strategyStandard :: jsstring where
  "strategyStandard =
     js ''\<newline>'' @
     js ''    \<newline>'' @
     js ''**Strategy: Standard Professional**\<newline>'' @
     js ''    - **Tone:** Friendly, professional, and helpful.\<newline>'' @
     js ''    - **Approach:** Highlight the benefits of modernization with N2 Digital.\<newline>'' @
     js ''    - **CTA:** Suggest a brief consultation or call with the N2 Digital team.\<newline>'' @
     js ''    ''"

text \<open>
  \<open>getPitchInstructions\<close> starts from the empty string and appends one length
  instruction and one strategy block.
\<close>

definition getPitchInstructions :: "PitchTone \<Rightarrow> PitchLength \<Rightarrow> jsstring" where
  "getPitchInstructions tone len =
     (let instructions0 = [];
          instructions1 = (if len = SHORT then instructions0 @ lengthShort
                           else instructions0 @ lengthStandard);
          instructions2 = (if tone = PAIN_FOCUSED then instructions1 @ strategyPainFocused
                           else instructions1 @ strategyStandard)
      in instructions2)"

section \<open>services/geminiService.ts: requests and responses\<close>

text \<open>
  A thrown JavaScript value is either an instance of \<open>Error\<close>, which carries a
  message, or some other value, for which \<open>instanceof Error\<close> is false (the
  \<open>ProgressEvent\<close> a \<open>FileReader\<close> rejects with is one). A promise that settles
  is \<open>Inl\<close> of the thrown value or \<open>Inr\<close> of the result.
\<close>

datatype thrown = Error jsstring | NonError

record File =
  fileType :: jsstring
  fileContents :: "8 word list"

record ImageFile =
  "file" :: File
  previewUrl :: jsstring

text \<open>\<open>s.split(c)\<close> for a separator of one code unit, and \<open>xs[i]\<close>, which is \<open>undefined\<close> out of range.\<close>

fun split_on :: "code_unit \<Rightarrow> jsstring \<Rightarrow> jsstring list" where
  "split_on c [] = [[]]"
| "split_on c (x # xs) =
     (if x = c then [] # split_on c xs
      else (case split_on c xs of [] \<Rightarrow> [[x]] | r # rs \<Rightarrow> (x # r) # rs))"

fun element :: "'a list \<Rightarrow> nat \<Rightarrow> 'a option" where
  "element [] i = None"
| "element (x # xs) 0 = Some x"
| "element (x # xs) (Suc i) = element xs i"

record InlineData =
  data :: "jsstring option"
  mimeType :: jsstring

text \<open>
  \<open>fileToGenerativePart\<close>: the reader's outcome comes from the browser, so
  \<open>readAsDataURL\<close> is a parameter. On success the data URL is cut at its first comma.
\<close>

definition fileToGenerativePart :: "(File \<Rightarrow> thrown + jsstring) \<Rightarrow> File \<Rightarrow> thrown + InlineData" where
  "fileToGenerativePart readAsDataURL f =
     (case readAsDataURL f of
        Inl e \<Rightarrow> Inl e
      | Inr base64String \<Rightarrow>
          (let base64Data = element (split_on 0x2C base64String) 1
           in Inr \<lparr>data = base64Data, mimeType = fileType f\<rparr>))"

text \<open>
  The grounding metadata of a vendor response, as far as the application reads it. A
  field that may be missing is an \<open>option\<close>. Where two objects of the source have a
  field of the same name, or the name is taken in HOL, the field is renamed here:
  \<open>chunk.web\<close> and \<open>chunk.maps\<close> are \<open>chunkWeb\<close> and \<open>chunkMaps\<close>, the title of a
  web chunk is \<open>webTitle\<close>, \<open>response.text\<close> is \<open>vendorText\<close>, the metadata of a
  candidate is \<open>candidateGroundingMetadata\<close>, and the two fields of an
  \<open>AnalysisResponse\<close> are \<open>responseText\<close> and \<open>responseGroundingMetadata\<close>.
\<close>

record WebChunk =
  uri :: "jsstring option"
  webTitle :: "jsstring option"

record MapsChunk =
  title :: "jsstring option"
  address :: "jsstring option"
  googleMapsUriString :: "jsstring option"

record GroundingChunk =
  chunkWeb :: "WebChunk option"
  chunkMaps :: "MapsChunk option"

record GroundingMetadata =
  groundingChunks :: "GroundingChunk list option"

record Candidate =
  candidateGroundingMetadata :: "GroundingMetadata option"

record GenerateContentResponse =
  vendorText :: "jsstring option"
  candidates :: "Candidate list option"

datatype Part = InlinePart InlineData | TextPart jsstring

datatype Contents = Parts "Part list" | Prompt jsstring

record Config =
  googleMapsTool :: bool
  thinkingBudget :: "nat option"
  maxOutputTokens :: nat

record GenerateContentRequest =
  model :: jsstring
  contents :: Contents
  config :: Config

text \<open>The two things the service awaits: the file reader and the vendor's endpoint.\<close>

record Env =
  readAsDataURL :: "File \<Rightarrow> thrown + jsstring"
  generateContent :: "GenerateContentRequest \<Rightarrow> thrown + GenerateContentResponse"

record AnalysisResponse =
  responseText :: jsstring
  responseGroundingMetadata :: "GroundingMetadata option"

text \<open>The three prompt templates.\<close>

definition imagePrompt :: "jsstring \<Rightarrow> OutputLanguage \<Rightarrow> jsstring \<Rightarrow> jsstring" where
  "imagePrompt businessName language pitchInstructions =
     js ''\<newline>'' @
     js ''      You are an expert Digital Transformation Consultant and Sales Strategist representing \"N2 Digital\".\<newline>'' @
     js ''      \<newline>'' @
     js ''      Analyze the provided image. It is likely a photo of a business interaction point (e.g., a storefront, a business card, a flyer, a vehicle wrap, or a product label).\<newline>'' @
     js ''\<newline>'' @
     js ''      The user has identified this business as: \"**'' @
     businessName @
     js ''**\".\<newline>'' @
     js ''\<newline>'' @
     js ''      Your goal is to identify sales opportunities for web development and business automation services that \"N2 Digital\" can provide for \"'' @
     businessName @
     js ''\".\<newline>'' @
     js ''\<newline>'' @
     js ''      **IMPORTANT:** The entire output, including section headers, lists, and the sales pitch, MUST be in '' @
     languageName language @
     js ''.\<newline>'' @
     js ''\<newline>'' @
     js ''      Please provide a structured analysis in Markdown format with the following sections (translated to '' @
     languageName language @
     js ''):\<newline>'' @
     js ''\<newline>'' @
     js ''      ### 1. Business Identity '' @
     [0xD83C, 0xDFE2] @
     js ''\<newline>'' @
     js ''      - **Name:** '' @
     businessName @
     js ''\<newline>'' @
     js ''      - **Industry:** (Extract or infer)\<newline>'' @
     js ''      - **Contact Info:** (Phone, Email, Address if visible)\<newline>'' @
     js ''      - **Current Vibe:** (Describe the aesthetic/branding in 1 sentence)\<newline>'' @
     js ''\<newline>'' @
     js ''      ### 2. Digital Audit & Needs Assessment '' @
     [0xD83D, 0xDD0D] @
     js ''\<newline>'' @
     js ''      Based on the image, what seems missing or could be improved digitally?\<newline>'' @
     js ''      - Does it look like they have a modern online presence?\<newline>'' @
     js ''      - Are there manual processes visible (e.g., paper logs, phone-only booking) that could be automated?\<newline>'' @
     js ''\<newline>'' @
     js ''      ### 3. Proposed Solutions by N2 Digital '' @
     [0xD83D, 0xDE80] @
     js ''\<newline>'' @
     js ''      **Website Improvements:**\<newline>'' @
     js ''      - Suggest 3 specific features N2 Digital can build (e.g., \"Online Menu with QR code\", \"Appointment Booking System\", \"E-commerce store for these specific products\").\<newline>'' @
     js ''      \<newline>'' @
     js ''      **Automation Ideas:**\<newline>'' @
     js ''      - Suggest 3 workflow automations N2 Digital can implement (e.g., \"Auto-reply SMS for missed calls\", \"Review collection campaign\", \"Inventory sync\").\<newline>'' @
     js ''\<newline>'' @
     js ''      ### 4. The Cold Pitch '' @
     [0xD83D, 0xDCE7] @
     js ''\<newline>'' @
     js ''      Draft a cold email to the owner of '' @
     businessName @
     js '' representing \"N2 Digital\" based on this specific image.\<newline>'' @
     js ''      '' @
     pitchInstructions @
     js ''\<newline>'' @
     js ''    ''"

definition searchPrompt :: "jsstring \<Rightarrow> OutputLanguage \<Rightarrow> jsstring \<Rightarrow> jsstring" where
  "searchPrompt query language pitchInstructions =
     js ''\<newline>'' @
     js ''      You are a Lead Generation Specialist for \"N2 Digital\".\<newline>'' @
     js ''      \<newline>'' @
     js ''      Search for businesses on Google Maps matching this query: \"'' @
     query @
     js ''\".\<newline>'' @
     js ''      \<newline>'' @
     js ''      For each business found, analyze them as a potential client for N2 Digital (a Web Development & Automation Agency).\<newline>'' @
     js ''      \<newline>'' @
     js ''      **IMPORTANT:** The entire output, including section headers, lists, and the sales pitch, MUST be in '' @
     languageName language @
     js ''.\<newline>'' @
     js ''      \<newline>'' @
     js ''      Provide the output in Markdown (in '' @
     languageName language @
     js ''):\<newline>'' @
     js ''      \<newline>'' @
     js ''      ### '' @
     [0xD83C, 0xDFAF] @
     js '' Lead Candidates\<newline>'' @
     js ''      List the businesses found. For each one:\<newline>'' @
     js ''      - **Name**: [Business Name]\<newline>'' @
     js ''      - **Why pitch them?**: A brief 1-sentence reason why they might need N2 Digital's services.\<newline>'' @
     js ''      \<newline>'' @
     js ''      ### '' @
     [0xD83D, 0xDCDD] @
     js '' Recommended Outreach Strategy\<newline>'' @
     js ''      Based on the type of businesses found, draft a template email from \"N2 Digital\" that could be adapted for these specific leads.\<newline>'' @
     js ''      '' @
     pitchInstructions @
     js ''\<newline>'' @
     js ''      \<newline>'' @
     js ''      (Gemini, please ensure you use the Google Maps tool to find real places and include the grounding data).\<newline>'' @
     js ''    ''"

definition gapPrompt :: "jsstring \<Rightarrow> OutputLanguage \<Rightarrow> jsstring" where
  "gapPrompt description language =
     js ''\<newline>'' @
     js ''      You are a Senior Business Efficiency Consultant & Digital Strategist representing \"N2 Digital\".\<newline>'' @
     js ''      \<newline>'' @
     js ''      The user is an entrepreneur describing their current business operations and pain points:\<newline>'' @
     js ''      \"'' @
     description @
     js ''\"\<newline>'' @
     js ''      \<newline>'' @
     js ''      Your goal is to identify \"Business Leaks\"'' @
     [0x2014] @
     js ''areas where they are losing money, time, or customers'' @
     [0x2014] @
     js ''and map these specifically to solutions that N2 Digital can implement (Websites, Automations, and Marketing).\<newline>'' @
     js ''      \<newline>'' @
     js ''      **IMPORTANT:** The entire output, including section headers, lists, and action plans, MUST be in '' @
     languageName language @
     js ''.\<newline>'' @
     js ''\<newline>'' @
     js ''      Provide the response in Markdown (in '' @
     languageName language @
     js ''):\<newline>'' @
     js ''\<newline>'' @
     js ''      ### '' @
     [0xD83D, 0xDEA8] @
     js '' Business Leak Detection\<newline>'' @
     js ''      Identify the top 3 gaps (e.g., \"Manual scheduling is causing 5 hours of lost admin time/week\" or \"No lead capture on site is leaking 90% of traffic\").\<newline>'' @
     js ''      \<newline>'' @
     js ''      ### '' @
     [0xD83D, 0xDEE0, 0xFE0F] @
     js '' Solution Mapping (N2 Digital Services)\<newline>'' @
     js ''      \<newline>'' @
     js ''      **'' @
     [0xD83D, 0xDCBB] @
     js '' Website & Digital Presence**\<newline>'' @
     js ''      Specific features N2 Digital can build to fix the leaks (e.g., \"Add a self-service booking portal\", \"Create a high-converting landing page for service X\").\<newline>'' @
     js ''      \<newline>'' @
     js ''      **'' @
     [0x2699, 0xFE0F] @
     js '' Automations & Operations**\<newline>'' @
     js ''      Specific workflows N2 Digital can configure (e.g., \"Auto-invoice generation upon job completion\", \"Zapier connection between Leads and CRM\").\<newline>'' @
     js ''      \<newline>'' @
     js ''      **'' @
     [0xD83D, 0xDCC8] @
     js '' Marketing & Growth**\<newline>'' @
     js ''      Strategies to plug acquisition leaks (e.g., \"Retargeting ads for abandoned carts\", \"Google Review automation campaign\").\<newline>'' @
     js ''      \<newline>'' @
     js ''      ### '' @
     [0xD83D, 0xDCA1] @
     js '' Immediate Action Plan\<newline>'' @
     js ''      A bulleted list of the first 3 steps they should take this week to stop the leaks, culminating in booking a consultation with N2 Digital.\<newline>'' @
     js ''    ''"

section \<open>services/geminiService.ts: the three request functions\<close>

text \<open>
  Each function is a \<open>try\<close> block followed by a \<open>catch\<close> that rethrows. The
  \<open>try\<close> block is modelled by the \<open>_try\<close> definition: \<open>Inl\<close> is the value thrown
  inside it (by an awaited promise that rejects), \<open>Inr\<close> the value returned. The function
  itself applies the \<open>catch\<close> clause to that outcome.
\<close>

text \<open>The argument of \<open>ai.models.generateContent\<close> in each of the three functions.\<close>

definition imageRequest :: "InlineData \<Rightarrow> jsstring \<Rightarrow> GenerateContentRequest" where
  "imageRequest imagePart prompt =
     \<lparr>model = js ''gemini-3-pro-preview'',
      contents = Parts [InlinePart imagePart, TextPart prompt],
      config = \<lparr>googleMapsTool = False, thinkingBudget = None, maxOutputTokens = 700\<rparr>\<rparr>"

definition searchRequest :: "jsstring \<Rightarrow> GenerateContentRequest" where
  "searchRequest prompt =
     \<lparr>model = js ''gemini-2.5-flash'',
      contents = Prompt prompt,
      config = \<lparr>googleMapsTool = True, thinkingBudget = None, maxOutputTokens = 700\<rparr>\<rparr>"

definition gapRequest :: "jsstring \<Rightarrow> GenerateContentRequest" where
  "gapRequest prompt =
     \<lparr>model = js ''gemini-3-pro-preview'',
      contents = Prompt prompt,
      config = \<lparr>googleMapsTool = False, thinkingBudget = Some 1024,
                maxOutputTokens = 1724\<rparr>\<rparr>"

definition analyzeBusinessImage_try ::
  "Env \<Rightarrow> File \<Rightarrow> jsstring \<Rightarrow> PitchTone \<Rightarrow> PitchLength \<Rightarrow> OutputLanguage
     \<Rightarrow> thrown + AnalysisResponse" where
  "analyzeBusinessImage_try env imageFile businessName tone len language =
     (case fileToGenerativePart (readAsDataURL env) imageFile of
        Inl e \<Rightarrow> Inl e
      | Inr imagePart \<Rightarrow>
          (let pitchInstructions = getPitchInstructions tone len;
               prompt = imagePrompt businessName language pitchInstructions
           in case generateContent env (imageRequest imagePart prompt) of
                Inl e \<Rightarrow> Inl e
              | Inr response \<Rightarrow>
                  Inr \<lparr>responseText =
                         or_else (vendorText response)
                           (js ''No analysis generated. Please try again.''),
                       responseGroundingMetadata = None\<rparr>))"

definition analyzeBusinessImage ::
  "Env \<Rightarrow> File \<Rightarrow> jsstring \<Rightarrow> PitchTone \<Rightarrow> PitchLength \<Rightarrow> OutputLanguage
     \<Rightarrow> thrown + AnalysisResponse" where
  "analyzeBusinessImage env imageFile businessName tone len language =
     (case analyzeBusinessImage_try env imageFile businessName tone len language of
        Inr r \<Rightarrow> Inr r
      | Inl err \<Rightarrow>
          (case err of
             Error message \<Rightarrow> Inl (Error (js ''Analysis failed: '' @ message))
           | NonError \<Rightarrow> Inl (Error (js ''An unexpected error occurred during analysis.''))))"

definition searchBusinessLeads_try ::
  "Env \<Rightarrow> jsstring \<Rightarrow> PitchTone \<Rightarrow> PitchLength \<Rightarrow> OutputLanguage
     \<Rightarrow> thrown + AnalysisResponse" where
  "searchBusinessLeads_try env query tone len language =
     (let pitchInstructions = getPitchInstructions tone len;
          prompt = searchPrompt query language pitchInstructions
      in case generateContent env (searchRequest prompt) of
           Inl e \<Rightarrow> Inl e
         | Inr response \<Rightarrow>
             Inr \<lparr>responseText =
                    or_else (vendorText response)
                      (js ''No leads found. Please try a different query.''),
                  responseGroundingMetadata =
                    (case candidates response of
                       None \<Rightarrow> None
                     | Some cs \<Rightarrow>
                         (case element cs 0 of
                            None \<Rightarrow> None
                          | Some c \<Rightarrow> candidateGroundingMetadata c))\<rparr>)"

definition searchBusinessLeads ::
  "Env \<Rightarrow> jsstring \<Rightarrow> PitchTone \<Rightarrow> PitchLength \<Rightarrow> OutputLanguage
     \<Rightarrow> thrown + AnalysisResponse" where
  "searchBusinessLeads env query tone len language =
     (case searchBusinessLeads_try env query tone len language of
        Inr r \<Rightarrow> Inr r
      | Inl err \<Rightarrow>
          (case err of
             Error message \<Rightarrow> Inl (Error (js ''Search failed: '' @ message))
           | NonError \<Rightarrow> Inl (Error (js ''An unexpected error occurred during search.''))))"

definition analyzeBusinessGap_try ::
  "Env \<Rightarrow> jsstring \<Rightarrow> OutputLanguage \<Rightarrow> thrown + AnalysisResponse" where
  "analyzeBusinessGap_try env description language =
     (let prompt = gapPrompt description language
      in case generateContent env (gapRequest prompt) of
           Inl e \<Rightarrow> Inl e
         | Inr response \<Rightarrow>
             Inr \<lparr>responseText =
                    or_else (vendorText response)
                      (js ''No analysis generated. Please try again.''),
                  responseGroundingMetadata = None\<rparr>)"

definition analyzeBusinessGap ::
  "Env \<Rightarrow> jsstring \<Rightarrow> OutputLanguage \<Rightarrow> thrown + AnalysisResponse" where
  "analyzeBusinessGap env description language =
     (case analyzeBusinessGap_try env description language of
        Inr r \<Rightarrow> Inr r
      | Inl err \<Rightarrow>
          (case err of
             Error message \<Rightarrow> Inl (Error (js ''Audit failed: '' @ message))
           | NonError \<Rightarrow> Inl (Error (js ''An unexpected error occurred during audit.''))))"

section \<open>App: state and submit handlers\<close>

record AnalysisState =
  isLoading :: bool
  result :: "jsstring option"
  groundingMetadata :: "GroundingMetadata option"
  error :: "jsstring option"

record App =
  mode :: AppMode
  selectedImage :: "ImageFile option"
  businessName :: jsstring
  searchQuery :: jsstring
  auditDescription :: jsstring
  isListening :: bool
  pitchTone :: PitchTone
  pitchLength :: PitchLength
  language :: OutputLanguage
  analysisState :: AnalysisState

definition initialApp :: App where
  "initialApp =
     \<lparr>mode = IMAGE, selectedImage = None, businessName = [], searchQuery = [],
      auditDescription = [], isListening = False, pitchTone = STANDARD_TONE,
      pitchLength = STANDARD_LENGTH, language = English,
      analysisState = \<lparr>isLoading = False, result = None, groundingMetadata = None,
                        error = None\<rparr>\<rparr>"

text \<open>A call of one of the three request functions, with its arguments.\<close>

datatype ServiceCall =
  AnalyzeBusinessImage File jsstring PitchTone PitchLength OutputLanguage
  | SearchBusinessLeads jsstring PitchTone PitchLength OutputLanguage
  | AnalyzeBusinessGap jsstring OutputLanguage

fun runCall :: "Env \<Rightarrow> ServiceCall \<Rightarrow> thrown + AnalysisResponse" where
  "runCall env (AnalyzeBusinessImage f name tone len lang) =
     analyzeBusinessImage env f name tone len lang"
| "runCall env (SearchBusinessLeads query tone len lang) =
     searchBusinessLeads env query tone len lang"
| "runCall env (AnalyzeBusinessGap description lang) =
     analyzeBusinessGap env description lang"

text \<open>
  A handler is asynchronous. Its synchronous part runs up to the call of the request
  function: it returns the updated state and the call it makes, if any. When that call
  settles, the rest of the handler stores the outcome.

  In \<open>handleAnalyzeImage\<close> the test \<open>typeof businessName !== 'string'\<close> is always
  false, the state being a string; \<open>!businessName\<close> holds for the empty string.
\<close>

definition handleAnalyzeImage_start :: "App \<Rightarrow> App \<times> ServiceCall option" where
  "handleAnalyzeImage_start app =
     (case selectedImage app of
        None \<Rightarrow> (app, None)
      | Some selected \<Rightarrow>
          if businessName app = [] \<or> trim (businessName app) = []
          then (app\<lparr>analysisState := (analysisState app)
                       \<lparr>error := Some (js ''Please enter a valid Business Name before proceeding.'')\<rparr>\<rparr>,
                None)
          else (app\<lparr>analysisState := \<lparr>isLoading = True, result = None,
                                         groundingMetadata = None, error = None\<rparr>\<rparr>,
                Some (AnalyzeBusinessImage (file selected) (trim (businessName app))
                        (pitchTone app) (pitchLength app) (language app))))"

definition handleAnalyzeImage_settle :: "thrown + AnalysisResponse \<Rightarrow> AnalysisState" where
  "handleAnalyzeImage_settle outcome =
     (case outcome of
        Inr response \<Rightarrow>
          \<lparr>isLoading = False, result = Some (responseText response),
           groundingMetadata = responseGroundingMetadata response, error = None\<rparr>
      | Inl err \<Rightarrow>
          (let errorMessage = (case err of Error message \<Rightarrow> message
                               | NonError \<Rightarrow> js ''An unexpected error occurred.'')
           in \<lparr>isLoading = False, result = None, groundingMetadata = None,
               error = Some errorMessage\<rparr>))"

definition handleSearchLeads_start :: "App \<Rightarrow> App \<times> ServiceCall option" where
  "handleSearchLeads_start app =
     (if trim (searchQuery app) = [] then (app, None)
      else (app\<lparr>analysisState := \<lparr>isLoading = True, result = None,
                                     groundingMetadata = None, error = None\<rparr>\<rparr>,
            Some (SearchBusinessLeads (searchQuery app) (pitchTone app) (pitchLength app)
                    (language app))))"

definition handleSearchLeads_settle :: "thrown + AnalysisResponse \<Rightarrow> AnalysisState" where
  "handleSearchLeads_settle outcome =
     (case outcome of
        Inr response \<Rightarrow>
          \<lparr>isLoading = False, result = Some (responseText response),
           groundingMetadata = responseGroundingMetadata response, error = None\<rparr>
      | Inl err \<Rightarrow>
          (let errorMessage = (case err of Error message \<Rightarrow> message
                               | NonError \<Rightarrow> js ''An unexpected error occurred.'')
           in \<lparr>isLoading = False, result = None, groundingMetadata = None,
               error = Some errorMessage\<rparr>))"

definition handleSelfAudit_start :: "App \<Rightarrow> App \<times> ServiceCall option" where
  "handleSelfAudit_start app =
     (if trim (auditDescription app) = [] then (app, None)
      else (app\<lparr>analysisState := \<lparr>isLoading = True, result = None,
                                     groundingMetadata = None, error = None\<rparr>\<rparr>,
            Some (AnalyzeBusinessGap (auditDescription app) (language app))))"

definition handleSelfAudit_settle :: "thrown + AnalysisResponse \<Rightarrow> AnalysisState" where
  "handleSelfAudit_settle outcome =
     (case outcome of
        Inr response \<Rightarrow>
          \<lparr>isLoading = False, result = Some (responseText response),
           groundingMetadata = responseGroundingMetadata response, error = None\<rparr>
      | Inl err \<Rightarrow>
          (let errorMessage = (case err of Error message \<Rightarrow> message
                               | NonError \<Rightarrow> js ''An unexpected error occurred.'')
           in \<lparr>isLoading = False, result = None, groundingMetadata = None,
               error = Some errorMessage\<rparr>))"

text \<open>
  A handler run to its end in an environment where every awaited promise settles: the
  synchronous part, then the outcome of the call stored by \<open>setAnalysisState\<close>.
\<close>

definition handleAnalyzeImage :: "Env \<Rightarrow> App \<Rightarrow> App" where
  "handleAnalyzeImage env app =
     (case handleAnalyzeImage_start app of
        (app', None) \<Rightarrow> app'
      | (app', Some call) \<Rightarrow>
          app'\<lparr>analysisState := handleAnalyzeImage_settle (runCall env call)\<rparr>)"

definition handleSearchLeads :: "Env \<Rightarrow> App \<Rightarrow> App" where
  "handleSearchLeads env app =
     (case handleSearchLeads_start app of
        (app', None) \<Rightarrow> app'
      | (app', Some call) \<Rightarrow>
          app'\<lparr>analysisState := handleSearchLeads_settle (runCall env call)\<rparr>)"

definition handleSelfAudit :: "Env \<Rightarrow> App \<Rightarrow> App" where
  "handleSelfAudit env app =
     (case handleSelfAudit_start app of
        (app', None) \<Rightarrow> app'
      | (app', Some call) \<Rightarrow>
          app'\<lparr>analysisState := handleSelfAudit_settle (runCall env call)\<rparr>)"

section \<open>App: voice dictation\<close>

text \<open>
  A result event of the speech recogniser: \<open>transcript\<close> is the transcript of the first
  alternative of a result, \<open>results[i][0].transcript\<close>.
\<close>

record SpeechRecognitionResult =
  isFinal :: bool
  transcript :: jsstring

record SpeechRecognitionEvent =
  resultIndex :: nat
  results :: "SpeechRecognitionResult list"

text \<open>The \<open>for\<close> loop of \<open>onresult\<close>, on the pair of the two accumulators.\<close>

function onresult_loop ::
  "SpeechRecognitionResult list \<Rightarrow> nat \<Rightarrow> jsstring \<times> jsstring \<Rightarrow> jsstring \<times> jsstring" where
  "onresult_loop rs i (interimTranscript, finalTranscript) =
     (if i < length rs
      then (if isFinal (rs ! i)
            then onresult_loop rs (i + 1)
                   (interimTranscript, finalTranscript @ transcript (rs ! i))
            else onresult_loop rs (i + 1)
                   (interimTranscript @ transcript (rs ! i), finalTranscript))
      else (interimTranscript, finalTranscript))"
  by pat_completeness auto
termination
  by (relation "measure (\<lambda>(rs, i, acc). length rs - i)") auto

declare onresult_loop.simps [simp del]

text \<open>
  \<open>onresult\<close> as a function of the event and of the description it updates
  (\<open>setAuditDescription(prev => ...)\<close>); without a final transcript the setter is not
  called and the description stays.
\<close>

definition onresult :: "SpeechRecognitionEvent \<Rightarrow> jsstring \<Rightarrow> jsstring" where
  "onresult event prev =
     (case onresult_loop (results event) (resultIndex event) ([], []) of
        (interimTranscript, finalTranscript) \<Rightarrow>
          if finalTranscript \<noteq> []
          then (let separator = (if length prev > 0 \<and> \<not> endsWith prev (js '' '')
                                 then js '' '' else [])
                in prev @ separator @ finalTranscript)
          else prev)"

section \<open>App: the rendered controls\<close>

text \<open>
  The state of a session: the component state and the calls of request functions that
  have been made and have not settled.
\<close>

record Session =
  appState :: App
  pending :: "ServiceCall list"

definition initialSession :: Session where
  "initialSession = \<lparr>appState = initialApp, pending = []\<rparr>"

datatype Suggestion = CoffeeShops | Dentists | Roofers

fun suggestionQuery :: "Suggestion \<Rightarrow> jsstring" where
  "suggestionQuery CoffeeShops = js ''Coffee shops without website near me''"
| "suggestionQuery Dentists = js ''Dentists in Chicago''"
| "suggestionQuery Roofers = js ''Roofing companies in Miami''"

text \<open>
  What can happen to a session: the user acts on a control, the speech recogniser fires
  an event, or a pending call settles.
\<close>

datatype Event =
  ClickMode AppMode
  | ChangeBusinessName jsstring
  | SelectImage ImageFile
  | ClearImage
  | ChangeLanguage OutputLanguage
  | ChangePitchTone PitchTone
  | ChangePitchLength PitchLength
  | ClickAnalyze
  | ChangeSearchQuery jsstring
  | KeyDownSearch jsstring
  | ClickSuggestion Suggestion
  | ClickFindLeads
  | ChangeAuditDescription jsstring
  | ClickVoice
  | RecognitionStart
  | RecognitionEnd
  | RecognitionResult SpeechRecognitionEvent
  | ClickSelfAudit
  | Settle nat

definition isAnalyzing :: "App \<Rightarrow> bool" where
  "isAnalyzing a = isLoading (analysisState a)"

text \<open>The synchronous part of a handler has run: its state is rendered, its call is pending.\<close>

definition submitted :: "Session \<Rightarrow> App \<times> ServiceCall option \<Rightarrow> Session" where
  "submitted s r =
     (case r of
        (a, None) \<Rightarrow> s\<lparr>appState := a\<rparr>
      | (a, Some call) \<Rightarrow> s\<lparr>appState := a, pending := pending s @ [call]\<rparr>)"

text \<open>The rest of the handler that made the call, on the outcome of the call.\<close>

fun settle :: "ServiceCall \<Rightarrow> thrown + AnalysisResponse \<Rightarrow> AnalysisState" where
  "settle (AnalyzeBusinessImage f name tone len lang) outcome = handleAnalyzeImage_settle outcome"
| "settle (SearchBusinessLeads query tone len lang) outcome = handleSearchLeads_settle outcome"
| "settle (AnalyzeBusinessGap description lang) outcome = handleSelfAudit_settle outcome"

fun remove_nth_pending :: "nat \<Rightarrow> 'a list \<Rightarrow> 'a list" where
  "remove_nth_pending i [] = []"
| "remove_nth_pending 0 (x # xs) = xs"
| "remove_nth_pending (Suc i) (x # xs) = x # remove_nth_pending i xs"

text \<open>
  One event. A control acts only where it is rendered (in its mode) and not disabled;
  the conditions are the \<open>disabled\<close> attributes of the source, \<open>apiKey\<close> standing for
  \<open>process.env.API_KEY\<close> being set. The handler of a user event runs its synchronous
  part and the result is rendered before the next event is handled. The search input
  is disabled while a call is pending, which stops typing into it; it does not stop a key
  event that reaches the input while it still holds the focus, and neither
  \<open>onKeyDown\<close> nor \<open>handleSearchLeads\<close> tests the busy flag, so a key pressed in the
  search mode runs the handler in every state. The voice button stops a running recognition
  (a started one reports itself by \<open>RecognitionStart\<close>); the recogniser's events are
  allowed in every state. \<open>Settle i\<close> is the \<open>i\<close>-th pending call settling with the
  outcome the environment gives it.
\<close>

fun step :: "bool \<Rightarrow> Env \<Rightarrow> Session \<Rightarrow> Event \<Rightarrow> Session" where
  "step apiKey env s (ClickMode m) = s\<lparr>appState := (appState s)\<lparr>mode := m\<rparr>\<rparr>"
| "step apiKey env s (ChangeBusinessName v) =
     (if mode (appState s) = IMAGE \<and> \<not> isAnalyzing (appState s)
      then s\<lparr>appState := (appState s)\<lparr>businessName := v\<rparr>\<rparr> else s)"
| "step apiKey env s (SelectImage selected) =
     (if mode (appState s) = IMAGE \<and> selectedImage (appState s) = None
         \<and> \<not> isAnalyzing (appState s)
      then s\<lparr>appState := (appState s)\<lparr>selectedImage := Some selected\<rparr>\<rparr> else s)"
| "step apiKey env s ClearImage =
     (if mode (appState s) = IMAGE \<and> selectedImage (appState s) \<noteq> None
         \<and> \<not> isAnalyzing (appState s)
      then s\<lparr>appState := (appState s)\<lparr>selectedImage := None\<rparr>\<rparr> else s)"
| "step apiKey env s (ChangeLanguage l) =
     (if \<not> isAnalyzing (appState s)
      then s\<lparr>appState := (appState s)\<lparr>language := l\<rparr>\<rparr> else s)"
| "step apiKey env s (ChangePitchTone t) =
     (if mode (appState s) \<noteq> SELF_AUDIT \<and> \<not> isAnalyzing (appState s)
      then s\<lparr>appState := (appState s)\<lparr>pitchTone := t\<rparr>\<rparr> else s)"
| "step apiKey env s (ChangePitchLength l) =
     (if mode (appState s) \<noteq> SELF_AUDIT \<and> \<not> isAnalyzing (appState s)
      then s\<lparr>appState := (appState s)\<lparr>pitchLength := l\<rparr>\<rparr> else s)"
| "step apiKey env s ClickAnalyze =
     (if mode (appState s) = IMAGE
         \<and> \<not> (selectedImage (appState s) = None \<or> trim (businessName (appState s)) = []
                \<or> isAnalyzing (appState s) \<or> \<not> apiKey)
      then submitted s (handleAnalyzeImage_start (appState s)) else s)"
| "step apiKey env s (ChangeSearchQuery v) =
     (if mode (appState s) = SEARCH \<and> \<not> isAnalyzing (appState s)
      then s\<lparr>appState := (appState s)\<lparr>searchQuery := v\<rparr>\<rparr> else s)"
| "step apiKey env s (KeyDownSearch key) =
     (if mode (appState s) = SEARCH
      then (if key = js ''Enter'' then submitted s (handleSearchLeads_start (appState s))
            else s)
      else s)"
| "step apiKey env s (ClickSuggestion g) =
     (if mode (appState s) = SEARCH
      then s\<lparr>appState := (appState s)\<lparr>searchQuery := suggestionQuery g\<rparr>\<rparr> else s)"
| "step apiKey env s ClickFindLeads =
     (if mode (appState s) = SEARCH
         \<and> \<not> (trim (searchQuery (appState s)) = [] \<or> isAnalyzing (appState s) \<or> \<not> apiKey)
      then submitted s (handleSearchLeads_start (appState s)) else s)"
| "step apiKey env s (ChangeAuditDescription v) =
     (if mode (appState s) = SELF_AUDIT
      then s\<lparr>appState := (appState s)\<lparr>auditDescription := v\<rparr>\<rparr> else s)"
| "step apiKey env s ClickVoice =
     (if mode (appState s) = SELF_AUDIT \<and> isListening (appState s)
      then s\<lparr>appState := (appState s)\<lparr>isListening := False\<rparr>\<rparr> else s)"
| "step apiKey env s RecognitionStart = s\<lparr>appState := (appState s)\<lparr>isListening := True\<rparr>\<rparr>"
| "step apiKey env s RecognitionEnd = s\<lparr>appState := (appState s)\<lparr>isListening := False\<rparr>\<rparr>"
| "step apiKey env s (RecognitionResult event) =
     s\<lparr>appState := (appState s)
          \<lparr>auditDescription := onresult event (auditDescription (appState s))\<rparr>\<rparr>"
| "step apiKey env s ClickSelfAudit =
     (if mode (appState s) = SELF_AUDIT
         \<and> \<not> (trim (auditDescription (appState s)) = [] \<or> isAnalyzing (appState s)
                \<or> \<not> apiKey)
      then submitted s (handleSelfAudit_start (appState s)) else s)"
| "step apiKey env s (Settle i) =
     (case element (pending s) i of
        None \<Rightarrow> s
      | Some call \<Rightarrow>
          s\<lparr>appState := (appState s)\<lparr>analysisState := settle call (runCall env call)\<rparr>,
            pending := remove_nth_pending i (pending s)\<rparr>)"

definition run :: "bool \<Rightarrow> Env \<Rightarrow> Event list \<Rightarrow> Session" where
  "run apiKey env events = foldl (step apiKey env) initialSession events"

section \<open>AnalysisResult: views and CSV export\<close>

datatype View = LoadingView | ErrorView jsstring | PlaceholderView | ResultView jsstring

text \<open>
  The component returns one of four elements, chosen by three tests in order:
  \<open>if (isLoading)\<close>, \<open>if (error)\<close>, \<open>if (!result)\<close>.
\<close>

definition AnalysisResult ::
  "jsstring option \<Rightarrow> GroundingMetadata option \<Rightarrow> bool \<Rightarrow> jsstring option \<Rightarrow> AppMode
     \<Rightarrow> OutputLanguage \<Rightarrow> View" where
  "AnalysisResult res metadata loading err m lang =
     (if loading then LoadingView
      else if truthy err then ErrorView (or_else err [])
      else if \<not> truthy res then PlaceholderView
      else ResultView (or_else res []))"

text \<open>\<open>groundingMetadata?.groundingChunks\<close>.\<close>

definition chunksOf :: "GroundingMetadata option \<Rightarrow> GroundingChunk list option" where
  "chunksOf metadata = (case metadata of None \<Rightarrow> None | Some g \<Rightarrow> groundingChunks g)"

definition hasMapData :: "GroundingMetadata option \<Rightarrow> bool" where
  "hasMapData metadata =
     (case chunksOf metadata of
        None \<Rightarrow> False
      | Some chunks \<Rightarrow> list_ex (\<lambda>c. chunkMaps c \<noteq> None) chunks)"




section \<open>Predicates and example inputs of the properties\<close>

text \<open>
  Example inputs: a file, a vendor response with one map chunk and one web chunk, and
  three environments (one that answers, one that answers with an empty text, one where
  the file reader and the vendor both reject).
\<close>

definition exampleFile :: File where
  "exampleFile = \<lparr>fileType = js ''image/png'', fileContents = [0x89, 0x50, 0x4E, 0x47]\<rparr>"

definition exampleMetadata :: GroundingMetadata where
  "exampleMetadata =
     \<lparr>groundingChunks =
        Some [\<lparr>chunkWeb = None,
               chunkMaps = Some \<lparr>title = Some (js ''Joe's \"Famous\" Pizza''),
                                  address = Some (js ''1 Main St, Austin''),
                                  googleMapsUriString = Some (js ''https://maps.google.com/?cid=1'')\<rparr>\<rparr>,
              \<lparr>chunkWeb = Some \<lparr>uri = Some (js ''https://example.com''), webTitle = None\<rparr>,
               chunkMaps = None\<rparr>]\<rparr>"

definition exampleResponse :: GenerateContentResponse where
  "exampleResponse =
     \<lparr>vendorText = Some (js ''Lead report''),
      candidates = Some [\<lparr>candidateGroundingMetadata = Some exampleMetadata\<rparr>]\<rparr>"

definition respondingEnv :: Env where
  "respondingEnv =
     \<lparr>readAsDataURL = (\<lambda>f. Inr (js ''data:image/png;base64,iVBORw0KGgo='')),
      generateContent = (\<lambda>request. Inr exampleResponse)\<rparr>"

definition emptyTextEnv :: Env where
  "emptyTextEnv =
     \<lparr>readAsDataURL = (\<lambda>f. Inr (js ''data:image/png;base64,iVBORw0KGgo='')),
      generateContent = (\<lambda>request. Inr \<lparr>vendorText = Some [], candidates = None\<rparr>)\<rparr>"

definition failingEnv :: Env where
  "failingEnv =
     \<lparr>readAsDataURL = (\<lambda>f. Inl NonError),
      generateContent = (\<lambda>request. Inl (Error (js ''quota exceeded'')))\<rparr>"

text \<open>
  A component state with all inputs filled in, holding the result of an earlier analysis.
\<close>

definition exampleApp :: App where
  "exampleApp =
     \<lparr>mode = SEARCH,
      selectedImage = Some \<lparr>file = exampleFile, previewUrl = js ''blob:preview''\<rparr>,
      businessName = js '' Cafe '', searchQuery = js ''Bakeries'',
      auditDescription = js ''We schedule by text'', isListening = False,
      pitchTone = STANDARD_TONE, pitchLength = SHORT, language = English,
      analysisState = \<lparr>isLoading = False, result = Some (js ''Earlier report''),
                        groundingMetadata = Some exampleMetadata, error = None\<rparr>\<rparr>"

text \<open>
  A blank string: every code unit is white space (the empty string included).
\<close>

definition blank :: "jsstring \<Rightarrow> bool" where
  "blank s = list_all is_white_space s"

text \<open>
  The user switches to the search mode, types a query and presses Enter.
\<close>

definition enterSearch :: "Event list" where
  "enterSearch = [ClickMode SEARCH, ChangeSearchQuery (js ''Bakeries''), KeyDownSearch (js ''Enter'')]"

text \<open>
  How a CSV reader reads the inside of a quoted field: two quotes stand for one.
\<close>

fun undouble :: "jsstring \<Rightarrow> jsstring" where
  "undouble (a # b # s) =
     (if a = 0x22 \<and> b = 0x22 then a # undouble s else a # undouble (b # s))"
| "undouble s = s"

text \<open>
  A result event with three results, of which those from index 1 on are new.
\<close>

definition exampleSpeech :: SpeechRecognitionEvent where
  "exampleSpeech =
     \<lparr>resultIndex = 1,
      results = [\<lparr>isFinal = True, transcript = js ''we schedule''\<rparr>,
                 \<lparr>isFinal = True, transcript = js ''by text''\<rparr>,
                 \<lparr>isFinal = False, transcript = js ''and use''\<rparr>]\<rparr>"

section \<open>Properties\<close>

lemma of_char_less_65536: "(of_char x :: nat) < 65536"
proof -
  have "(of_char x :: nat) mod 256 < 256" by simp
  then have "(of_char x :: nat) < 256" by (simp only: of_char_mod_256)
  then show ?thesis by linarith
qed

lemma inj_code_unit_of_char: "inj (of_char :: char \<Rightarrow> code_unit)"
proof (rule injI)
  fix x y :: char
  assume "(of_char x :: code_unit) = of_char y"
  then have "unat (of_char x :: code_unit) = unat (of_char y :: code_unit)" by simp
  then have "(of_char x :: nat) = of_char y"
    using of_char_less_65536 [of x] of_char_less_65536 [of y]
    by (simp add: unat_of_nat flip: of_nat_of_char [where 'a = code_unit])
  then show "x = y" by simp
qed

lemma js_append: "js (a @ b) = js a @ js b"
  by (simp add: js_def)

lemma sublist_js: "sublist (js a) (js b) \<longleftrightarrow> sublist a b"
proof
  assume "sublist (js a) (js b)"
  then obtain c where c: "sublist c b" "js a = map of_char c"
    unfolding js_def using sublist_map_rightE by blast
  have "a = c" using c(2) inj_code_unit_of_char unfolding js_def by (simp add: inj_map_eq_map)
  with c(1) show "sublist a b" by simp
next
  assume "sublist a b"
  then show "sublist (js a) (js b)" unfolding js_def by (rule map_mono_sublist)
qed

subsection \<open>Prompt assembly\<close>

lemmas pitch_unfold =
  getPitchInstructions_def lengthShort_def lengthStandard_def strategyPainFocused_def
  strategyStandard_def Let_def

lemmas pitch_norm =
  js_append [symmetric] sublist_js append_Nil PitchLength.simps PitchTone.simps if_False if_True
  refl

lemma pitch_pain_short:
  "sublist lengthShort (getPitchInstructions PAIN_FOCUSED SHORT) \<and>
   \<not> sublist lengthStandard (getPitchInstructions PAIN_FOCUSED SHORT) \<and>
   sublist strategyPainFocused (getPitchInstructions PAIN_FOCUSED SHORT) \<and>
   \<not> sublist strategyStandard (getPitchInstructions PAIN_FOCUSED SHORT)"
  unfolding pitch_unfold
  apply (simp only: pitch_norm)
  apply code_simp
  done

lemma pitch_pain_standard:
  "\<not> sublist lengthShort (getPitchInstructions PAIN_FOCUSED STANDARD_LENGTH) \<and>
   sublist lengthStandard (getPitchInstructions PAIN_FOCUSED STANDARD_LENGTH) \<and>
   sublist strategyPainFocused (getPitchInstructions PAIN_FOCUSED STANDARD_LENGTH) \<and>
   \<not> sublist strategyStandard (getPitchInstructions PAIN_FOCUSED STANDARD_LENGTH)"
  unfolding pitch_unfold
  apply (simp only: pitch_norm)
  apply code_simp
  done

lemma pitch_standard_short:
  "sublist lengthShort (getPitchInstructions STANDARD_TONE SHORT) \<and>
   \<not> sublist lengthStandard (getPitchInstructions STANDARD_TONE SHORT) \<and>
   \<not> sublist strategyPainFocused (getPitchInstructions STANDARD_TONE SHORT) \<and>
   sublist strategyStandard (getPitchInstructions STANDARD_TONE SHORT)"
  unfolding pitch_unfold
  apply (simp only: pitch_norm)
  apply code_simp
  done

lemma pitch_standard_standard:
  "\<not> sublist lengthShort (getPitchInstructions STANDARD_TONE STANDARD_LENGTH) \<and>
   sublist lengthStandard (getPitchInstructions STANDARD_TONE STANDARD_LENGTH) \<and>
   \<not> sublist strategyPainFocused (getPitchInstructions STANDARD_TONE STANDARD_LENGTH) \<and>
   sublist strategyStandard (getPitchInstructions STANDARD_TONE STANDARD_LENGTH)"
  unfolding pitch_unfold
  apply (simp only: pitch_norm)
  apply code_simp
  done

text \<open>
  C7. Prompt assembly is a total, deterministic function of its two arguments: the
  result is the selected length instruction followed by the selected strategy block. It
  contains the under-100-words instruction exactly when the length is \<open>SHORT\<close> and the
  150-200-words instruction exactly when it is not; it contains the Pain-Focused strategy
  block exactly when the tone is \<open>PAIN_FOCUSED\<close> and the Standard Professional block
  exactly when it is not.
\<close>

theorem getPitchInstructions_contains:
  "getPitchInstructions tone len =
     (if len = SHORT then lengthShort else lengthStandard) @
     (if tone = PAIN_FOCUSED then strategyPainFocused else strategyStandard) \<and>
   (sublist lengthShort (getPitchInstructions tone len) \<longleftrightarrow> len = SHORT) \<and>
   (sublist lengthStandard (getPitchInstructions tone len) \<longleftrightarrow> len = STANDARD_LENGTH) \<and>
   (sublist strategyPainFocused (getPitchInstructions tone len) \<longleftrightarrow> tone = PAIN_FOCUSED) \<and>
   (sublist strategyStandard (getPitchInstructions tone len) \<longleftrightarrow> tone = STANDARD_TONE)"
proof -
  have eq: "getPitchInstructions tone len =
     (if len = SHORT then lengthShort else lengthStandard) @
     (if tone = PAIN_FOCUSED then strategyPainFocused else strategyStandard)"
    by (simp add: getPitchInstructions_def)
  show ?thesis
  proof (cases tone; cases len)
    assume "tone = STANDARD_TONE" "len = SHORT"
    with pitch_standard_short eq show ?thesis by simp
  next
    assume "tone = STANDARD_TONE" "len = STANDARD_LENGTH"
    with pitch_standard_standard eq show ?thesis by simp
  next
    assume "tone = PAIN_FOCUSED" "len = SHORT"
    with pitch_pain_short eq show ?thesis by simp
  next
    assume "tone = PAIN_FOCUSED" "len = STANDARD_LENGTH"
    with pitch_pain_standard eq show ?thesis by simp
  qed
qed

subsection \<open>The request functions\<close>

lemma or_else_falsy: "v = None \<or> v = Some [] \<Longrightarrow> or_else v d = d"
  by (auto simp: or_else_def)

lemma or_else_js_nonempty: "or_else v (js (c # cs)) \<noteq> []"
  by (simp add: or_else_def js_def split: option.splits)

lemma analyzeBusinessImage_Inr:
  "analyzeBusinessImage env f name tone len lang = Inr r \<longleftrightarrow>
     (\<exists>part response.
        fileToGenerativePart (readAsDataURL env) f = Inr part \<and>
        generateContent env
          (imageRequest part (imagePrompt name lang (getPitchInstructions tone len))) = Inr response \<and>
        r = \<lparr>responseText = or_else (vendorText response)
                               (js ''No analysis generated. Please try again.''),
             responseGroundingMetadata = None\<rparr>)"
  by (auto simp: analyzeBusinessImage_def analyzeBusinessImage_try_def Let_def
           split: sum.splits thrown.splits)

lemma searchBusinessLeads_Inr:
  "searchBusinessLeads env query tone len lang = Inr r \<longleftrightarrow>
     (\<exists>response.
        generateContent env
          (searchRequest (searchPrompt query lang (getPitchInstructions tone len))) = Inr response \<and>
        r = \<lparr>responseText = or_else (vendorText response)
                               (js ''No leads found. Please try a different query.''),
             responseGroundingMetadata =
               (case candidates response of
                  None \<Rightarrow> None
                | Some cs \<Rightarrow> (case element cs 0 of None \<Rightarrow> None
                             | Some c \<Rightarrow> candidateGroundingMetadata c))\<rparr>)"
  by (auto simp: searchBusinessLeads_def searchBusinessLeads_try_def Let_def
           split: sum.splits thrown.splits)

lemma analyzeBusinessGap_Inr:
  "analyzeBusinessGap env description lang = Inr r \<longleftrightarrow>
     (\<exists>response.
        generateContent env (gapRequest (gapPrompt description lang)) = Inr response \<and>
        r = \<lparr>responseText = or_else (vendorText response)
                               (js ''No analysis generated. Please try again.''),
             responseGroundingMetadata = None\<rparr>)"
  by (auto simp: analyzeBusinessGap_def analyzeBusinessGap_try_def Let_def
           split: sum.splits thrown.splits)

lemma first_candidate:
  "(case candidates response of
      None \<Rightarrow> None
    | Some cs \<Rightarrow> (case element cs 0 of None \<Rightarrow> None | Some c \<Rightarrow> candidateGroundingMetadata c)) =
   (case candidates response of
      None \<Rightarrow> None
    | Some [] \<Rightarrow> None
    | Some (c # cs) \<Rightarrow> candidateGroundingMetadata c)"
  by (simp split: option.splits list.splits)

text \<open>
  C1. Every call of a request function that returns has the one response shape, an
  \<open>AnalysisResponse\<close> (a text and a grounding metadata field). For
  \<open>analyzeBusinessImage\<close> and \<open>analyzeBusinessGap\<close> the metadata is \<open>null\<close>; for
  \<open>searchBusinessLeads\<close> it is the grounding metadata of the first candidate of the
  vendor's response when there is one, and \<open>null\<close> otherwise.
\<close>

theorem uniform_response_shape:
  "(analyzeBusinessImage env f name tone len lang = Inr r \<longrightarrow>
      responseGroundingMetadata r = None) \<and>
   (analyzeBusinessGap env description lang = Inr r \<longrightarrow>
      responseGroundingMetadata r = None) \<and>
   (searchBusinessLeads env query tone len lang = Inr r \<longrightarrow>
      (\<exists>response.
         generateContent env
           (searchRequest (searchPrompt query lang (getPitchInstructions tone len))) = Inr response \<and>
         responseGroundingMetadata r =
           (case candidates response of
              None \<Rightarrow> None
            | Some [] \<Rightarrow> None
            | Some (c # cs) \<Rightarrow> candidateGroundingMetadata c)))"
proof (intro conjI impI)
  assume "analyzeBusinessImage env f name tone len lang = Inr r"
  then show "responseGroundingMetadata r = None"
    unfolding analyzeBusinessImage_Inr by auto
next
  assume "analyzeBusinessGap env description lang = Inr r"
  then show "responseGroundingMetadata r = None"
    unfolding analyzeBusinessGap_Inr by auto
next
  assume "searchBusinessLeads env query tone len lang = Inr r"
  then obtain response where
    g: "generateContent env
          (searchRequest (searchPrompt query lang (getPitchInstructions tone len))) = Inr response"
    and r: "responseGroundingMetadata r =
       (case candidates response of
          None \<Rightarrow> None
        | Some cs \<Rightarrow> (case element cs 0 of None \<Rightarrow> None
                     | Some c \<Rightarrow> candidateGroundingMetadata c))"
    unfolding searchBusinessLeads_Inr by auto
  from r have "responseGroundingMetadata r =
       (case candidates response of
          None \<Rightarrow> None | Some [] \<Rightarrow> None | Some (c # cs) \<Rightarrow> candidateGroundingMetadata c)"
    by (simp only: first_candidate)
  with g show "\<exists>response.
         generateContent env
           (searchRequest (searchPrompt query lang (getPitchInstructions tone len))) = Inr response \<and>
         responseGroundingMetadata r =
           (case candidates response of
              None \<Rightarrow> None
            | Some [] \<Rightarrow> None
            | Some (c # cs) \<Rightarrow> candidateGroundingMetadata c)"
    by blast
qed

text \<open>
  C1 at an environment where the file reader and the vendor both answer.
\<close>

theorem uniform_response_shape_witness:
  "(\<exists>r. analyzeBusinessImage respondingEnv exampleFile (js ''Cafe'') STANDARD_TONE SHORT English = Inr r
        \<and> responseGroundingMetadata r = None) \<and>
   (\<exists>r. analyzeBusinessGap respondingEnv (js ''We schedule by text'') English = Inr r
        \<and> responseGroundingMetadata r = None) \<and>
   (\<exists>r. searchBusinessLeads respondingEnv (js ''Bakeries'') STANDARD_TONE SHORT English = Inr r
        \<and> responseGroundingMetadata r = Some exampleMetadata)"
proof -
  let ?r = "\<lparr>responseText = js ''Lead report'', responseGroundingMetadata = None\<rparr>"
  let ?s = "\<lparr>responseText = js ''Lead report'', responseGroundingMetadata = Some exampleMetadata\<rparr>"
  have a: "analyzeBusinessImage respondingEnv exampleFile (js ''Cafe'') STANDARD_TONE SHORT English
             = Inr ?r"
    by (simp add: analyzeBusinessImage_def analyzeBusinessImage_try_def fileToGenerativePart_def
        respondingEnv_def exampleResponse_def or_else_def js_def)
  have b: "analyzeBusinessGap respondingEnv (js ''We schedule by text'') English = Inr ?r"
    by (simp add: analyzeBusinessGap_def analyzeBusinessGap_try_def respondingEnv_def
        exampleResponse_def or_else_def js_def)
  have c: "searchBusinessLeads respondingEnv (js ''Bakeries'') STANDARD_TONE SHORT English = Inr ?s"
    by (simp add: searchBusinessLeads_def searchBusinessLeads_try_def respondingEnv_def
        exampleResponse_def or_else_def js_def)
  have "responseGroundingMetadata ?r = None"
    using a uniform_response_shape [where env = respondingEnv and f = exampleFile
        and name = "js ''Cafe''" and tone = STANDARD_TONE and len = SHORT and lang = English
        and r = ?r]
    by blast
  moreover have "\<exists>response.
      generateContent respondingEnv
        (searchRequest (searchPrompt (js ''Bakeries'') English
           (getPitchInstructions STANDARD_TONE SHORT))) = Inr response \<and>
      responseGroundingMetadata ?s =
        (case candidates response of
           None \<Rightarrow> None | Some [] \<Rightarrow> None | Some (c # cs) \<Rightarrow> candidateGroundingMetadata c)"
    using c uniform_response_shape [where env = respondingEnv and query = "js ''Bakeries''"
        and tone = STANDARD_TONE and len = SHORT and lang = English and r = ?s]
    by blast
  ultimately show ?thesis using a b c by simp
qed

text \<open>
  C9. The text a request function returns is never empty; when the vendor's text is
  undefined or empty, the function returns its fixed fallback message.
\<close>

theorem returned_text_nonempty:
  "(analyzeBusinessImage env f name tone len lang = Inr r \<longrightarrow> responseText r \<noteq> []) \<and>
   (searchBusinessLeads env query tone len lang = Inr r \<longrightarrow> responseText r \<noteq> []) \<and>
   (analyzeBusinessGap env description lang = Inr r \<longrightarrow> responseText r \<noteq> []) \<and>
   (fileToGenerativePart (readAsDataURL env) f = Inr part \<and>
    generateContent env
      (imageRequest part (imagePrompt name lang (getPitchInstructions tone len))) = Inr response \<and>
    (vendorText response = None \<or> vendorText response = Some []) \<longrightarrow>
      analyzeBusinessImage env f name tone len lang =
        Inr \<lparr>responseText = js ''No analysis generated. Please try again.'',
             responseGroundingMetadata = None\<rparr>) \<and>
   (generateContent env
      (searchRequest (searchPrompt query lang (getPitchInstructions tone len))) = Inr response \<and>
    (vendorText response = None \<or> vendorText response = Some []) \<longrightarrow>
      (\<exists>r'. searchBusinessLeads env query tone len lang = Inr r' \<and>
            responseText r' = js ''No leads found. Please try a different query.'')) \<and>
   (generateContent env (gapRequest (gapPrompt description lang)) = Inr response \<and>
    (vendorText response = None \<or> vendorText response = Some []) \<longrightarrow>
      analyzeBusinessGap env description lang =
        Inr \<lparr>responseText = js ''No analysis generated. Please try again.'',
             responseGroundingMetadata = None\<rparr>)"
proof (intro conjI impI)
  assume "analyzeBusinessImage env f name tone len lang = Inr r"
  then show "responseText r \<noteq> []"
    unfolding analyzeBusinessImage_Inr by (auto simp: or_else_js_nonempty)
next
  assume "searchBusinessLeads env query tone len lang = Inr r"
  then show "responseText r \<noteq> []"
    unfolding searchBusinessLeads_Inr by (auto simp: or_else_js_nonempty)
next
  assume "analyzeBusinessGap env description lang = Inr r"
  then show "responseText r \<noteq> []"
    unfolding analyzeBusinessGap_Inr by (auto simp: or_else_js_nonempty)
next
  assume "fileToGenerativePart (readAsDataURL env) f = Inr part \<and>
    generateContent env
      (imageRequest part (imagePrompt name lang (getPitchInstructions tone len))) = Inr response \<and>
    (vendorText response = None \<or> vendorText response = Some [])"
  then show "analyzeBusinessImage env f name tone len lang =
        Inr \<lparr>responseText = js ''No analysis generated. Please try again.'',
             responseGroundingMetadata = None\<rparr>"
    unfolding analyzeBusinessImage_Inr by (auto simp: or_else_falsy)
next
  assume "generateContent env
      (searchRequest (searchPrompt query lang (getPitchInstructions tone len))) = Inr response \<and>
    (vendorText response = None \<or> vendorText response = Some [])"
  then show "\<exists>r'. searchBusinessLeads env query tone len lang = Inr r' \<and>
            responseText r' = js ''No leads found. Please try a different query.''"
    unfolding searchBusinessLeads_Inr by (auto simp: or_else_falsy)
next
  assume "generateContent env (gapRequest (gapPrompt description lang)) = Inr response \<and>
    (vendorText response = None \<or> vendorText response = Some [])"
  then show "analyzeBusinessGap env description lang =
        Inr \<lparr>responseText = js ''No analysis generated. Please try again.'',
             responseGroundingMetadata = None\<rparr>"
    unfolding analyzeBusinessGap_Inr by (auto simp: or_else_falsy)
qed

text \<open>
  C9 at a vendor that answers with a text, and at one that answers with the empty text.
\<close>

theorem returned_text_nonempty_witness:
  "(\<exists>r. analyzeBusinessImage respondingEnv exampleFile (js ''Cafe'') STANDARD_TONE SHORT English = Inr r
        \<and> responseText r \<noteq> []) \<and>
   (\<exists>r. searchBusinessLeads respondingEnv (js ''Bakeries'') STANDARD_TONE SHORT English = Inr r
        \<and> responseText r \<noteq> []) \<and>
   (\<exists>r. analyzeBusinessGap respondingEnv (js ''We schedule by text'') English = Inr r
        \<and> responseText r \<noteq> []) \<and>
   analyzeBusinessImage emptyTextEnv exampleFile (js ''Cafe'') STANDARD_TONE SHORT English =
     Inr \<lparr>responseText = js ''No analysis generated. Please try again.'',
          responseGroundingMetadata = None\<rparr> \<and>
   (\<exists>r. searchBusinessLeads emptyTextEnv (js ''Bakeries'') STANDARD_TONE SHORT English = Inr r
        \<and> responseText r = js ''No leads found. Please try a different query.'') \<and>
   analyzeBusinessGap emptyTextEnv (js ''We schedule by text'') English =
     Inr \<lparr>responseText = js ''No analysis generated. Please try again.'',
          responseGroundingMetadata = None\<rparr>"
proof -
  let ?r = "\<lparr>responseText = js ''Lead report'', responseGroundingMetadata = None\<rparr>"
  let ?s = "\<lparr>responseText = js ''Lead report'', responseGroundingMetadata = Some exampleMetadata\<rparr>"
  let ?part = "\<lparr>data = Some (js ''iVBORw0KGgo=''), mimeType = js ''image/png''\<rparr>"
  let ?empty = "\<lparr>vendorText = Some [], candidates = None\<rparr>"
  note shape = returned_text_nonempty [where f = exampleFile and name = "js ''Cafe''"
      and query = "js ''Bakeries''" and description = "js ''We schedule by text''"
      and tone = STANDARD_TONE and len = SHORT and lang = English]
  have a: "analyzeBusinessImage respondingEnv exampleFile (js ''Cafe'') STANDARD_TONE SHORT English
             = Inr ?r"
    by (simp add: analyzeBusinessImage_def analyzeBusinessImage_try_def fileToGenerativePart_def
        respondingEnv_def exampleResponse_def or_else_def js_def)
  have b: "analyzeBusinessGap respondingEnv (js ''We schedule by text'') English = Inr ?r"
    by (simp add: analyzeBusinessGap_def analyzeBusinessGap_try_def respondingEnv_def
        exampleResponse_def or_else_def js_def)
  have c: "searchBusinessLeads respondingEnv (js ''Bakeries'') STANDARD_TONE SHORT English = Inr ?s"
    by (simp add: searchBusinessLeads_def searchBusinessLeads_try_def respondingEnv_def
        exampleResponse_def or_else_def js_def)
  have p: "fileToGenerativePart (readAsDataURL emptyTextEnv) exampleFile = Inr ?part"
    by (simp add: fileToGenerativePart_def emptyTextEnv_def exampleFile_def js_def)
  have g: "generateContent emptyTextEnv request = Inr ?empty" for request
    by (simp add: emptyTextEnv_def)
  have "responseText ?r \<noteq> []"
    using a shape [where env = respondingEnv and r = ?r] by blast
  moreover have "responseText ?s \<noteq> []"
    using c shape [where env = respondingEnv and r = ?s] by blast
  moreover have "analyzeBusinessImage emptyTextEnv exampleFile (js ''Cafe'') STANDARD_TONE SHORT English =
     Inr \<lparr>responseText = js ''No analysis generated. Please try again.'',
          responseGroundingMetadata = None\<rparr>"
    using p g shape [where env = emptyTextEnv and part = ?part and response = ?empty] by simp
  moreover have "\<exists>r. searchBusinessLeads emptyTextEnv (js ''Bakeries'') STANDARD_TONE SHORT English = Inr r
        \<and> responseText r = js ''No leads found. Please try a different query.''"
    using g shape [where env = emptyTextEnv and response = ?empty] by simp
  moreover have "analyzeBusinessGap emptyTextEnv (js ''We schedule by text'') English =
     Inr \<lparr>responseText = js ''No analysis generated. Please try again.'',
          responseGroundingMetadata = None\<rparr>"
    using g shape [where env = emptyTextEnv and response = ?empty] by simp
  ultimately show ?thesis using a b c by simp
qed

text \<open>
  What makes a \<open>try\<close> block throw: a rejected file read or a rejected vendor call.
\<close>

lemma analyzeBusinessImage_try_Inl:
  "analyzeBusinessImage_try env f name tone len lang = Inl v \<longleftrightarrow>
     fileToGenerativePart (readAsDataURL env) f = Inl v \<or>
     (\<exists>part. fileToGenerativePart (readAsDataURL env) f = Inr part \<and>
        generateContent env
          (imageRequest part (imagePrompt name lang (getPitchInstructions tone len))) = Inl v)"
  by (auto simp: analyzeBusinessImage_try_def Let_def split: sum.splits)

lemma fileToGenerativePart_Inl:
  "fileToGenerativePart (readAsDataURL env) f = Inl v \<longleftrightarrow> readAsDataURL env f = Inl v"
  by (auto simp: fileToGenerativePart_def Let_def split: sum.splits)

lemma searchBusinessLeads_try_Inl:
  "searchBusinessLeads_try env query tone len lang = Inl v \<longleftrightarrow>
     generateContent env
       (searchRequest (searchPrompt query lang (getPitchInstructions tone len))) = Inl v"
  by (auto simp: searchBusinessLeads_try_def Let_def split: sum.splits)

lemma analyzeBusinessGap_try_Inl:
  "analyzeBusinessGap_try env description lang = Inl v \<longleftrightarrow>
     generateContent env (gapRequest (gapPrompt description lang)) = Inl v"
  by (auto simp: analyzeBusinessGap_try_def Let_def split: sum.splits)

text \<open>
  C3. When the \<open>try\<close> block of a request function throws a value \<open>v\<close> (the
  file reader or the vendor call rejected with it), the function throws one \<open>Error\<close>:
  its message is the message of \<open>v\<close> behind the function's prefix when \<open>v\<close> is an
  \<open>Error\<close>, and the function's fixed message otherwise. The handler that made the call
  then stores this message in \<open>analysisState.error\<close>, with \<open>isLoading\<close> false and
  \<open>result\<close> and \<open>groundingMetadata\<close> \<open>null\<close>.
\<close>

theorem failures_surface_as_one_message:
  "(selectedImage app = Some selected \<and> trim (businessName app) \<noteq> [] \<and>
    analyzeBusinessImage_try env (file selected) (trim (businessName app)) (pitchTone app)
      (pitchLength app) (language app) = Inl v \<longrightarrow>
      analyzeBusinessImage env (file selected) (trim (businessName app)) (pitchTone app)
        (pitchLength app) (language app) =
        Inl (Error (case v of Error message \<Rightarrow> js ''Analysis failed: '' @ message
                    | NonError \<Rightarrow> js ''An unexpected error occurred during analysis.'')) \<and>
      analysisState (handleAnalyzeImage env app) =
        \<lparr>isLoading = False, result = None, groundingMetadata = None,
         error = Some (case v of Error message \<Rightarrow> js ''Analysis failed: '' @ message
                       | NonError \<Rightarrow> js ''An unexpected error occurred during analysis.'')\<rparr>) \<and>
   (trim (searchQuery app) \<noteq> [] \<and>
    searchBusinessLeads_try env (searchQuery app) (pitchTone app) (pitchLength app)
      (language app) = Inl v \<longrightarrow>
      searchBusinessLeads env (searchQuery app) (pitchTone app) (pitchLength app) (language app) =
        Inl (Error (case v of Error message \<Rightarrow> js ''Search failed: '' @ message
                    | NonError \<Rightarrow> js ''An unexpected error occurred during search.'')) \<and>
      analysisState (handleSearchLeads env app) =
        \<lparr>isLoading = False, result = None, groundingMetadata = None,
         error = Some (case v of Error message \<Rightarrow> js ''Search failed: '' @ message
                       | NonError \<Rightarrow> js ''An unexpected error occurred during search.'')\<rparr>) \<and>
   (trim (auditDescription app) \<noteq> [] \<and>
    analyzeBusinessGap_try env (auditDescription app) (language app) = Inl v \<longrightarrow>
      analyzeBusinessGap env (auditDescription app) (language app) =
        Inl (Error (case v of Error message \<Rightarrow> js ''Audit failed: '' @ message
                    | NonError \<Rightarrow> js ''An unexpected error occurred during audit.'')) \<and>
      analysisState (handleSelfAudit env app) =
        \<lparr>isLoading = False, result = None, groundingMetadata = None,
         error = Some (case v of Error message \<Rightarrow> js ''Audit failed: '' @ message
                       | NonError \<Rightarrow> js ''An unexpected error occurred during audit.'')\<rparr>)"
proof (intro conjI impI)
  assume h: "selectedImage app = Some selected \<and> trim (businessName app) \<noteq> [] \<and>
    analyzeBusinessImage_try env (file selected) (trim (businessName app)) (pitchTone app)
      (pitchLength app) (language app) = Inl v"
  then have ne: "businessName app \<noteq> []" by (auto simp: trim_def)
  from h show "analyzeBusinessImage env (file selected) (trim (businessName app)) (pitchTone app)
        (pitchLength app) (language app) =
        Inl (Error (case v of Error message \<Rightarrow> js ''Analysis failed: '' @ message
                    | NonError \<Rightarrow> js ''An unexpected error occurred during analysis.''))"
    by (simp add: analyzeBusinessImage_def split: thrown.splits)
  from h ne show "analysisState (handleAnalyzeImage env app) =
        \<lparr>isLoading = False, result = None, groundingMetadata = None,
         error = Some (case v of Error message \<Rightarrow> js ''Analysis failed: '' @ message
                       | NonError \<Rightarrow> js ''An unexpected error occurred during analysis.'')\<rparr>"
    by (simp add: handleAnalyzeImage_def handleAnalyzeImage_start_def handleAnalyzeImage_settle_def
        analyzeBusinessImage_def split: thrown.splits)
next
  assume h: "trim (searchQuery app) \<noteq> [] \<and>
    searchBusinessLeads_try env (searchQuery app) (pitchTone app) (pitchLength app)
      (language app) = Inl v"
  then show "searchBusinessLeads env (searchQuery app) (pitchTone app) (pitchLength app) (language app) =
        Inl (Error (case v of Error message \<Rightarrow> js ''Search failed: '' @ message
                    | NonError \<Rightarrow> js ''An unexpected error occurred during search.''))"
    by (simp add: searchBusinessLeads_def split: thrown.splits)
  from h show "analysisState (handleSearchLeads env app) =
        \<lparr>isLoading = False, result = None, groundingMetadata = None,
         error = Some (case v of Error message \<Rightarrow> js ''Search failed: '' @ message
                       | NonError \<Rightarrow> js ''An unexpected error occurred during search.'')\<rparr>"
    by (simp add: handleSearchLeads_def handleSearchLeads_start_def handleSearchLeads_settle_def
        searchBusinessLeads_def split: thrown.splits)
next
  assume h: "trim (auditDescription app) \<noteq> [] \<and>
    analyzeBusinessGap_try env (auditDescription app) (language app) = Inl v"
  then show "analyzeBusinessGap env (auditDescription app) (language app) =
        Inl (Error (case v of Error message \<Rightarrow> js ''Audit failed: '' @ message
                    | NonError \<Rightarrow> js ''An unexpected error occurred during audit.''))"
    by (simp add: analyzeBusinessGap_def split: thrown.splits)
  from h show "analysisState (handleSelfAudit env app) =
        \<lparr>isLoading = False, result = None, groundingMetadata = None,
         error = Some (case v of Error message \<Rightarrow> js ''Audit failed: '' @ message
                       | NonError \<Rightarrow> js ''An unexpected error occurred during audit.'')\<rparr>"
    by (simp add: handleSelfAudit_def handleSelfAudit_start_def handleSelfAudit_settle_def
        analyzeBusinessGap_def split: thrown.splits)
qed

lemma trim_examples:
  "trim (js '' Cafe '') = js ''Cafe''"
  "trim (js ''Bakeries'') = js ''Bakeries''"
  "trim (js ''We schedule by text'') = js ''We schedule by text''"
  "trim (js ''   '') = []"
  by (simp_all add: trim_def is_white_space_def js_def)

text \<open>
  C3 at an environment where the file reader rejects with a value that is not an
  \<open>Error\<close> and the vendor call rejects with an \<open>Error\<close>.
\<close>

theorem failures_surface_as_one_message_witness:
  "analysisState (handleAnalyzeImage failingEnv exampleApp) =
     \<lparr>isLoading = False, result = None, groundingMetadata = None,
      error = Some (js ''An unexpected error occurred during analysis.'')\<rparr> \<and>
   analysisState (handleSearchLeads failingEnv exampleApp) =
     \<lparr>isLoading = False, result = None, groundingMetadata = None,
      error = Some (js ''Search failed: quota exceeded'')\<rparr> \<and>
   analysisState (handleSelfAudit failingEnv exampleApp) =
     \<lparr>isLoading = False, result = None, groundingMetadata = None,
      error = Some (js ''Audit failed: quota exceeded'')\<rparr>"
proof -
  let ?selected = "\<lparr>file = exampleFile, previewUrl = js ''blob:preview''\<rparr>"
  have s: "selectedImage exampleApp = Some ?selected"
    and t: "trim (businessName exampleApp) \<noteq> []" "trim (searchQuery exampleApp) \<noteq> []"
      "trim (auditDescription exampleApp) \<noteq> []"
    by (simp_all add: exampleApp_def trim_examples) (simp_all add: js_def)
  have i: "analyzeBusinessImage_try failingEnv (file ?selected) (trim (businessName exampleApp))
             (pitchTone exampleApp) (pitchLength exampleApp) (language exampleApp) = Inl NonError"
    by (simp add: analyzeBusinessImage_try_def fileToGenerativePart_def failingEnv_def)
  have q: "searchBusinessLeads_try failingEnv (searchQuery exampleApp) (pitchTone exampleApp)
             (pitchLength exampleApp) (language exampleApp) = Inl (Error (js ''quota exceeded''))"
    by (simp add: searchBusinessLeads_try_def failingEnv_def)
  have g: "analyzeBusinessGap_try failingEnv (auditDescription exampleApp) (language exampleApp)
             = Inl (Error (js ''quota exceeded''))"
    by (simp add: analyzeBusinessGap_try_def failingEnv_def)
  have "analysisState (handleAnalyzeImage failingEnv exampleApp) =
     \<lparr>isLoading = False, result = None, groundingMetadata = None,
      error = Some (js ''An unexpected error occurred during analysis.'')\<rparr>"
    using s t i failures_surface_as_one_message [where app = exampleApp and env = failingEnv
        and selected = ?selected and v = NonError]
    by simp
  moreover have "analysisState (handleSearchLeads failingEnv exampleApp) =
     \<lparr>isLoading = False, result = None, groundingMetadata = None,
      error = Some (js ''Search failed: quota exceeded'')\<rparr>"
    using t q failures_surface_as_one_message [where app = exampleApp and env = failingEnv
        and v = "Error (js ''quota exceeded'')"]
    by (simp add: js_def)
  moreover have "analysisState (handleSelfAudit failingEnv exampleApp) =
     \<lparr>isLoading = False, result = None, groundingMetadata = None,
      error = Some (js ''Audit failed: quota exceeded'')\<rparr>"
    using t g failures_surface_as_one_message [where app = exampleApp and env = failingEnv
        and v = "Error (js ''quota exceeded'')"]
    by (simp add: js_def)
  ultimately show ?thesis by simp
qed

subsection \<open>Validation before submission\<close>

lemma dropWhile_all: "list_all P xs \<Longrightarrow> dropWhile P xs = []"
  by (induction xs) auto

text \<open>
  A string is blank when all its code units are white space; that is when \<open>trim\<close>
  leaves nothing.
\<close>

lemma trim_blank: "trim s = [] \<longleftrightarrow> blank s"
proof
  assume "blank s"
  then show "trim s = []" by (simp add: trim_def blank_def dropWhile_all)
next
  assume "trim s = []"
  then have "dropWhile is_white_space (rev (dropWhile is_white_space s)) = []"
    by (simp add: trim_def)
  then have "\<forall>c \<in> set (rev (dropWhile is_white_space s)). is_white_space c"
    by (simp add: dropWhile_eq_Nil_conv)
  then have "dropWhile is_white_space s = []"
    by (metis dropWhile_eq_Nil_conv hd_dropWhile list.set_sel(1) set_rev)
  then show "blank s"
    by (simp add: blank_def dropWhile_eq_Nil_conv list_all_iff)
qed

lemma handleAnalyzeImage_start_blank:
  "selectedImage app = Some selected \<Longrightarrow> blank (businessName app) \<Longrightarrow>
   handleAnalyzeImage_start app =
     (app\<lparr>analysisState := (analysisState app)
            \<lparr>error := Some (js ''Please enter a valid Business Name before proceeding.'')\<rparr>\<rparr>,
      None)"
  by (simp add: handleAnalyzeImage_start_def trim_blank)

text \<open>
  C8. \<open>handleAnalyzeImage\<close> with a selected image and a blank business name updates
  the \<open>error\<close> field of \<open>analysisState\<close> only: it becomes the validation message,
  while \<open>isLoading\<close>, \<open>result\<close> and \<open>groundingMetadata\<close> (and the rest of the
  component state) keep their values.
\<close>

theorem validation_error_frame:
  "selectedImage app = Some selected \<Longrightarrow> blank (businessName app) \<Longrightarrow>
   handleAnalyzeImage env app =
     app\<lparr>analysisState := (analysisState app)
           \<lparr>error := Some (js ''Please enter a valid Business Name before proceeding.'')\<rparr>\<rparr> \<and>
   error (analysisState (handleAnalyzeImage env app)) =
     Some (js ''Please enter a valid Business Name before proceeding.'') \<and>
   isLoading (analysisState (handleAnalyzeImage env app)) = isLoading (analysisState app) \<and>
   result (analysisState (handleAnalyzeImage env app)) = result (analysisState app) \<and>
   groundingMetadata (analysisState (handleAnalyzeImage env app)) =
     groundingMetadata (analysisState app)"
  by (simp add: handleAnalyzeImage_def handleAnalyzeImage_start_blank)

text \<open>
  C8 at a state that holds the result of an earlier analysis: the result stays beside
  the validation message.
\<close>

theorem validation_error_frame_witness:
  "selectedImage (exampleApp\<lparr>businessName := js ''   ''\<rparr>) \<noteq> None \<and>
   blank (businessName (exampleApp\<lparr>businessName := js ''   ''\<rparr>)) \<and>
   error (analysisState (handleAnalyzeImage failingEnv (exampleApp\<lparr>businessName := js ''   ''\<rparr>))) =
     Some (js ''Please enter a valid Business Name before proceeding.'') \<and>
   isLoading (analysisState (handleAnalyzeImage failingEnv (exampleApp\<lparr>businessName := js ''   ''\<rparr>)))
     = False \<and>
   result (analysisState (handleAnalyzeImage failingEnv (exampleApp\<lparr>businessName := js ''   ''\<rparr>))) =
     Some (js ''Earlier report'') \<and>
   groundingMetadata
     (analysisState (handleAnalyzeImage failingEnv (exampleApp\<lparr>businessName := js ''   ''\<rparr>))) =
     Some exampleMetadata"
proof -
  let ?app = "exampleApp\<lparr>businessName := js ''   ''\<rparr>"
  let ?selected = "\<lparr>file = exampleFile, previewUrl = js ''blob:preview''\<rparr>"
  have s: "selectedImage ?app = Some ?selected" by (simp add: exampleApp_def)
  have b: "blank (businessName ?app)"
    by (simp add: blank_def is_white_space_def js_def)
  from validation_error_frame [OF s b, of failingEnv] s b show ?thesis
    by (simp add: exampleApp_def)
qed

text \<open>
  C4 as stated fails: with a blank business name and no selected image,
  \<open>handleAnalyzeImage\<close> returns at its first test and sets no validation message.
\<close>

theorem blank_image_name_without_image_counterexample:
  "selectedImage initialApp = None \<and> blank (businessName initialApp) \<and>
   handleAnalyzeImage_start initialApp = (initialApp, None) \<and>
   error (analysisState (fst (handleAnalyzeImage_start initialApp))) = None"
  by (simp add: handleAnalyzeImage_start_def initialApp_def blank_def)

text \<open>
  C4, amended. When the required input of a handler is missing or blank (no selected
  image or a blank business name for \<open>handleAnalyzeImage\<close>, a blank query for
  \<open>handleSearchLeads\<close>, a blank description for \<open>handleSelfAudit\<close>), the handler
  returns without calling its request function, so nothing is sent to the vendor.
  \<open>handleAnalyzeImage\<close> sets the validation message when an image is selected and the
  business name is blank.
\<close>

theorem validation_before_submission:
  "(selectedImage app = None \<or> blank (businessName app) \<longrightarrow>
      snd (handleAnalyzeImage_start app) = None \<and>
      pending (submitted s (handleAnalyzeImage_start app)) = pending s) \<and>
   (blank (searchQuery app) \<longrightarrow>
      handleSearchLeads_start app = (app, None) \<and>
      pending (submitted s (handleSearchLeads_start app)) = pending s) \<and>
   (blank (auditDescription app) \<longrightarrow>
      handleSelfAudit_start app = (app, None) \<and>
      pending (submitted s (handleSelfAudit_start app)) = pending s) \<and>
   (selectedImage app = Some selected \<and> blank (businessName app) \<longrightarrow>
      error (analysisState (fst (handleAnalyzeImage_start app))) =
        Some (js ''Please enter a valid Business Name before proceeding.''))"
  by (auto simp: handleAnalyzeImage_start_def handleSearchLeads_start_def
      handleSelfAudit_start_def trim_blank submitted_def split: option.splits)

text \<open>
  C4, amended, at the initial state and at states with blank inputs.
\<close>

theorem validation_before_submission_witness:
  "snd (handleAnalyzeImage_start initialApp) = None \<and>
   snd (handleAnalyzeImage_start (exampleApp\<lparr>businessName := js ''   ''\<rparr>)) = None \<and>
   handleSearchLeads_start (exampleApp\<lparr>searchQuery := js ''   ''\<rparr>) =
     (exampleApp\<lparr>searchQuery := js ''   ''\<rparr>, None) \<and>
   handleSelfAudit_start (exampleApp\<lparr>auditDescription := []\<rparr>) =
     (exampleApp\<lparr>auditDescription := []\<rparr>, None) \<and>
   error (analysisState (fst (handleAnalyzeImage_start (exampleApp\<lparr>businessName := js ''   ''\<rparr>)))) =
     Some (js ''Please enter a valid Business Name before proceeding.'')"
proof -
  let ?selected = "\<lparr>file = exampleFile, previewUrl = js ''blob:preview''\<rparr>"
  have b: "blank (js ''   '')" "blank []"
    by (simp_all add: blank_def is_white_space_def js_def)
  have n: "selectedImage initialApp = None" by (simp add: initialApp_def)
  have s: "selectedImage (exampleApp\<lparr>businessName := js ''   ''\<rparr>) = Some ?selected"
    by (simp add: exampleApp_def)
  have "snd (handleAnalyzeImage_start initialApp) = None"
    using n validation_before_submission [where app = initialApp] by blast
  moreover have "snd (handleAnalyzeImage_start (exampleApp\<lparr>businessName := js ''   ''\<rparr>)) = None"
    using b validation_before_submission [where app = "exampleApp\<lparr>businessName := js ''   ''\<rparr>"]
    by simp
  moreover have "handleSearchLeads_start (exampleApp\<lparr>searchQuery := js ''   ''\<rparr>) =
     (exampleApp\<lparr>searchQuery := js ''   ''\<rparr>, None)"
    using b validation_before_submission [where app = "exampleApp\<lparr>searchQuery := js ''   ''\<rparr>"]
    by simp
  moreover have "handleSelfAudit_start (exampleApp\<lparr>auditDescription := []\<rparr>) =
     (exampleApp\<lparr>auditDescription := []\<rparr>, None)"
    using b validation_before_submission [where app = "exampleApp\<lparr>auditDescription := []\<rparr>"]
    by simp
  moreover have "error (analysisState (fst (handleAnalyzeImage_start
        (exampleApp\<lparr>businessName := js ''   ''\<rparr>)))) =
     Some (js ''Please enter a valid Business Name before proceeding.'')"
    using b s validation_before_submission [where app = "exampleApp\<lparr>businessName := js ''   ''\<rparr>"
        and selected = ?selected]
    by simp
  ultimately show ?thesis by simp
qed

subsection \<open>Pending calls\<close>

lemma settle_not_loading: "isLoading (settle call outcome) = False"
  by (cases call)
     (simp_all add: handleAnalyzeImage_settle_def handleSearchLeads_settle_def
        handleSelfAudit_settle_def Let_def split: sum.splits)

text \<open>While the busy flag is set the three buttons are disabled: a click makes no call.\<close>

lemma buttons_disabled_while_loading:
  assumes "isLoading (analysisState (appState s))"
  shows "step apiKey env s ClickAnalyze = s"
    and "step apiKey env s ClickFindLeads = s"
    and "step apiKey env s ClickSelfAudit = s"
  using assms by (simp_all add: isAnalyzing_def)

text \<open>
  The handler itself does not read the busy flag, and the Enter key reaches it in every
  state of the search mode: with a query that is not blank it makes a further call.
\<close>

lemma handleSearchLeads_start_ignores_loading:
  "trim (searchQuery a) \<noteq> [] \<Longrightarrow>
   snd (handleSearchLeads_start a) =
     Some (SearchBusinessLeads (searchQuery a) (pitchTone a) (pitchLength a) (language a))"
  by (simp add: handleSearchLeads_start_def)

lemma enter_while_loading_makes_call:
  "mode (appState s) = SEARCH \<Longrightarrow> trim (searchQuery (appState s)) \<noteq> [] \<Longrightarrow>
   pending (step apiKey env s (KeyDownSearch (js ''Enter''))) =
     pending s @ [SearchBusinessLeads (searchQuery (appState s)) (pitchTone (appState s))
                    (pitchLength (appState s)) (language (appState s))]"
  by (simp add: handleSearchLeads_start_def submitted_def)

lemma run_enterSearch:
  "run True respondingEnv enterSearch =
     \<lparr>appState = initialApp\<lparr>mode := SEARCH, searchQuery := js ''Bakeries'',
          analysisState := \<lparr>isLoading = True, result = None, groundingMetadata = None,
                             error = None\<rparr>\<rparr>,
      pending = [SearchBusinessLeads (js ''Bakeries'') STANDARD_TONE STANDARD_LENGTH English]\<rparr>"
  by (simp add: run_def enterSearch_def initialSession_def initialApp_def isAnalyzing_def
      handleSearchLeads_start_def submitted_def trim_examples)
     (simp add: js_def)

lemma run_snoc: "run apiKey env (events @ [e]) = step apiKey env (run apiKey env events) e"
  by (simp add: run_def)

text \<open>
  C2. The claim is that no submit action makes a second call while \<open>isLoading\<close> is
  true, the Enter key in the search input included. The code does not keep it: after
  Enter has been pressed in the search input, \<open>isLoading\<close> is true and one call is
  pending; the button is disabled and a click on it changes nothing, but a second Enter
  runs \<open>handleSearchLeads\<close> again and two calls are pending. When the first of them
  settles, \<open>isLoading\<close> is false while the other is still pending.
\<close>

theorem enter_key_second_request:
  "isLoading (analysisState (appState (run True respondingEnv enterSearch))) \<and>
   pending (run True respondingEnv enterSearch) =
     [SearchBusinessLeads (js ''Bakeries'') STANDARD_TONE STANDARD_LENGTH English] \<and>
   step True respondingEnv (run True respondingEnv enterSearch) ClickFindLeads =
     run True respondingEnv enterSearch \<and>
   pending (run True respondingEnv (enterSearch @ [KeyDownSearch (js ''Enter'')])) =
     [SearchBusinessLeads (js ''Bakeries'') STANDARD_TONE STANDARD_LENGTH English,
      SearchBusinessLeads (js ''Bakeries'') STANDARD_TONE STANDARD_LENGTH English] \<and>
   length (pending (run True respondingEnv (enterSearch @ [KeyDownSearch (js ''Enter'')]))) = 2 \<and>
   isLoading (analysisState (appState
     (run True respondingEnv (enterSearch @ [KeyDownSearch (js ''Enter''), Settle 0])))) = False \<and>
   pending (run True respondingEnv (enterSearch @ [KeyDownSearch (js ''Enter''), Settle 0])) =
     [SearchBusinessLeads (js ''Bakeries'') STANDARD_TONE STANDARD_LENGTH English]"
proof -
  let ?call = "SearchBusinessLeads (js ''Bakeries'') STANDARD_TONE STANDARD_LENGTH English"
  let ?s = "run True respondingEnv enterSearch"
  have ne: "trim (js ''Bakeries'') \<noteq> []"
    by (simp add: trim_examples) (simp add: js_def)
  have l: "isLoading (analysisState (appState ?s))" and p: "pending ?s = [?call]"
    by (simp_all add: run_enterSearch)
  have b: "step True respondingEnv ?s ClickFindLeads = ?s"
    using l by (rule buttons_disabled_while_loading)
  have "pending (step True respondingEnv ?s (KeyDownSearch (js ''Enter''))) =
      pending ?s @ [SearchBusinessLeads (searchQuery (appState ?s)) (pitchTone (appState ?s))
                      (pitchLength (appState ?s)) (language (appState ?s))]"
    by (rule enter_while_loading_makes_call) (simp_all add: run_enterSearch initialApp_def ne)
  also have "\<dots> = [?call, ?call]"
    by (simp add: run_enterSearch initialApp_def)
  finally have two: "pending (run True respondingEnv (enterSearch @ [KeyDownSearch (js ''Enter'')])) =
      [?call, ?call]"
    by (simp only: run_snoc)
  have three: "run True respondingEnv (enterSearch @ [KeyDownSearch (js ''Enter''), Settle 0]) =
      step True respondingEnv
        (run True respondingEnv (enterSearch @ [KeyDownSearch (js ''Enter'')])) (Settle 0)"
    using run_snoc [of True respondingEnv "enterSearch @ [KeyDownSearch (js ''Enter'')]" "Settle 0"]
    by simp
  have s1: "isLoading (analysisState (appState
      (run True respondingEnv (enterSearch @ [KeyDownSearch (js ''Enter''), Settle 0])))) = False"
    unfolding three using two settle_not_loading [of ?call] by simp
  have s2: "pending (run True respondingEnv (enterSearch @ [KeyDownSearch (js ''Enter''), Settle 0]))
      = [?call]"
    unfolding three using two by simp
  from l p b two s1 s2 show ?thesis by simp
qed

subsection \<open>Views\<close>

text \<open>
  C5 as stated fails for empty strings, which are not \<open>null\<close>: with the empty string
  as \<open>error\<close> the component does not render the error view, and with the empty string as
  \<open>result\<close> it renders the placeholder.
\<close>

theorem empty_error_or_result_counterexample:
  "AnalysisResult None None False (Some []) IMAGE English = PlaceholderView \<and>
   AnalysisResult (Some (js ''Report'')) None False (Some []) IMAGE English
     = ResultView (js ''Report'') \<and>
   AnalysisResult (Some []) None False None IMAGE English = PlaceholderView"
  by (simp add: AnalysisResult_def truthy_def or_else_def js_def)

text \<open>
  C5, amended. The component renders exactly one of four views: the loading view when
  \<open>isLoading\<close> is true; otherwise the error view when \<open>error\<close> is a non-empty string;
  otherwise the placeholder when \<open>result\<close> is \<open>null\<close> or empty; otherwise the result
  view.
\<close>

theorem exclusive_views:
  "(loading \<longrightarrow> AnalysisResult res metadata loading err m lang = LoadingView) \<and>
   (\<not> loading \<and> err = Some e \<and> e \<noteq> [] \<longrightarrow>
      AnalysisResult res metadata loading err m lang = ErrorView e) \<and>
   (\<not> loading \<and> (err = None \<or> err = Some []) \<and> (res = None \<or> res = Some []) \<longrightarrow>
      AnalysisResult res metadata loading err m lang = PlaceholderView) \<and>
   (\<not> loading \<and> (err = None \<or> err = Some []) \<and> res = Some r \<and> r \<noteq> [] \<longrightarrow>
      AnalysisResult res metadata loading err m lang = ResultView r)"
  by (auto simp: AnalysisResult_def truthy_def or_else_def split: option.splits)

text \<open>
  C5, amended, at one input for each view.
\<close>

theorem exclusive_views_witness:
  "AnalysisResult (Some (js ''Report'')) None True (Some (js ''Search failed: x'')) SEARCH English
     = LoadingView \<and>
   AnalysisResult (Some (js ''Report'')) None False (Some (js ''Search failed: x'')) SEARCH English
     = ErrorView (js ''Search failed: x'') \<and>
   AnalysisResult None None False None SEARCH English = PlaceholderView \<and>
   AnalysisResult (Some (js ''Report'')) None False None SEARCH English = ResultView (js ''Report'')"
proof -
  have ne: "js ''Report'' \<noteq> []" "js ''Search failed: x'' \<noteq> []" by (simp_all add: js_def)
  have "AnalysisResult (Some (js ''Report'')) None True (Some (js ''Search failed: x'')) SEARCH English
     = LoadingView"
    using exclusive_views [where loading = True] by blast
  moreover have "AnalysisResult (Some (js ''Report'')) None False (Some (js ''Search failed: x''))
     SEARCH English = ErrorView (js ''Search failed: x'')"
    using ne exclusive_views [where loading = False and err = "Some (js ''Search failed: x'')"
        and e = "js ''Search failed: x''"] by blast
  moreover have "AnalysisResult None None False None SEARCH English = PlaceholderView"
    using exclusive_views [where loading = False and err = None and res = None] by blast
  moreover have "AnalysisResult (Some (js ''Report'')) None False None SEARCH English
     = ResultView (js ''Report'')"
    using ne exclusive_views [where loading = False and err = None and res = "Some (js ''Report'')"
        and r = "js ''Report''"] by blast
  ultimately show ?thesis by simp
qed

subsection \<open>CSV export\<close>

lemma double_quotes_simps:
  "double_quotes [] = []"
  "double_quotes (c # s) = (if c = 0x22 then [0x22, 0x22] else [c]) @ double_quotes s"
  by (simp_all add: double_quotes_def)

text \<open>
  Doubling the quotes loses nothing: reading each pair of quotes as one quote gives the
  field back, and the number of quotes doubles.
\<close>

lemma undouble_double_quotes: "undouble (double_quotes s) = s"
proof (induction s)
  case Nil
  show ?case by (simp add: double_quotes_simps)
next
  case (Cons c s)
  show ?case
  proof (cases "c = 0x22")
    case True
    with Cons show ?thesis by (simp add: double_quotes_simps)
  next
    case False
    with Cons show ?thesis
      by (cases "double_quotes s") (simp_all add: double_quotes_simps)
  qed
qed

lemma count_double_quotes: "count_list (double_quotes s) 0x22 = 2 * count_list s 0x22"
  by (induction s) (simp_all add: double_quotes_simps)

lemma hasMapData_iff:
  "hasMapData metadata \<longleftrightarrow>
     (\<exists>g chunks c. metadata = Some g \<and> groundingChunks g = Some chunks \<and>
        c \<in> set chunks \<and> chunkMaps c \<noteq> None)"
  by (auto simp: hasMapData_def chunksOf_def list_ex_iff split: option.splits)






subsection \<open>Voice dictation\<close>

text \<open>
  The loop collects the transcripts of the final results, and those of the others, from
  \<open>resultIndex\<close> on.
\<close>

lemma onresult_loop_eq:
  "onresult_loop rs i (a, b) =
     (a @ concat (map transcript (filter (\<lambda>r. \<not> isFinal r) (drop i rs))),
      b @ concat (map transcript (filter isFinal (drop i rs))))"
proof (induction rs i "(a, b)" arbitrary: a b rule: onresult_loop.induct)
  case (1 rs i a b)
  show ?case
  proof (cases "i < length rs")
    case False
    then show ?thesis by (subst onresult_loop.simps) simp
  next
    case True
    then have d: "drop i rs = rs ! i # drop (i + 1) rs"
      by (simp add: Cons_nth_drop_Suc)
    show ?thesis
    proof (cases "isFinal (rs ! i)")
      case f: True
      from 1(1) [OF True f] True f d show ?thesis
        by (subst onresult_loop.simps) simp
    next
      case f: False
      from 1(2) [OF True f] True f d show ?thesis
        by (subst onresult_loop.simps) simp
    qed
  qed
qed

lemma endsWith_space: "endsWith s (js '' '') \<longleftrightarrow> s \<noteq> [] \<and> last s = 0x20"
proof (cases s rule: rev_cases)
  case Nil
  then show ?thesis by (simp add: endsWith_def js_def)
next
  case (snoc ys y)
  then show ?thesis by (auto simp: endsWith_def js_def suffix_def)
qed

lemma js_space: "js '' '' = [0x20]"
  by (simp add: js_def)

lemma onresult_eq:
  "onresult event prev =
     (let finalTranscript =
            concat (map transcript (filter isFinal (drop (resultIndex event) (results event))))
      in if finalTranscript = [] then prev
         else prev @ (if prev \<noteq> [] \<and> last prev \<noteq> 0x20 then [0x20] else []) @ finalTranscript)"
  unfolding onresult_def onresult_loop_eq endsWith_space
  by (simp add: Let_def js_space)

text \<open>
  C10. A result event only extends the description: the description before the event
  is a prefix of the description after it. The final transcript of the event is the
  concatenation of the transcripts of its final results from \<open>resultIndex\<close> on; the
  interim ones do not count. When it is empty the description stays; otherwise it is
  appended, behind one space when the description is not empty and does not end in a
  space.
\<close>

theorem dictation_extends_description:
  "prefix prev (onresult event prev) \<and>
   (concat (map transcript (filter isFinal (drop (resultIndex event) (results event)))) = [] \<longrightarrow>
      onresult event prev = prev) \<and>
   (concat (map transcript (filter isFinal (drop (resultIndex event) (results event)))) \<noteq> [] \<longrightarrow>
      onresult event prev =
        prev @ (if prev \<noteq> [] \<and> last prev \<noteq> 0x20 then [0x20] else []) @
        concat (map transcript (filter isFinal (drop (resultIndex event) (results event)))))"
  by (simp add: onresult_eq Let_def)

text \<open>
  C10 at an event with one final and one interim result behind \<open>resultIndex\<close>.
\<close>

theorem dictation_extends_description_witness:
  "onresult exampleSpeech (js ''We schedule'') = js ''We schedule by text'' \<and>
   onresult exampleSpeech (js ''We schedule '') = js ''We schedule by text'' \<and>
   onresult exampleSpeech [] = js ''by text'' \<and>
   onresult (exampleSpeech\<lparr>resultIndex := 2\<rparr>) (js ''We schedule'') = js ''We schedule'' \<and>
   prefix (js ''We schedule'') (onresult exampleSpeech (js ''We schedule''))"
proof -
  have f: "concat (map transcript (filter isFinal (drop (resultIndex exampleSpeech)
             (results exampleSpeech)))) = js ''by text''"
    by (simp add: exampleSpeech_def)
  have g: "concat (map transcript (filter isFinal
             (drop (resultIndex (exampleSpeech\<lparr>resultIndex := 2\<rparr>))
                (results (exampleSpeech\<lparr>resultIndex := 2\<rparr>))))) = []"
    by (simp add: exampleSpeech_def)
  have ne: "js ''by text'' \<noteq> []" by (simp add: js_def)
  note d = dictation_extends_description
  have "onresult exampleSpeech (js ''We schedule'') =
      js ''We schedule'' @
      (if js ''We schedule'' \<noteq> [] \<and> last (js ''We schedule'') \<noteq> 0x20 then [0x20] else []) @
      js ''by text''"
    using ne d [of "js ''We schedule''" exampleSpeech] unfolding f by blast
  then have "onresult exampleSpeech (js ''We schedule'') = js ''We schedule by text''"
    by (simp add: js_def)
  moreover have "onresult exampleSpeech (js ''We schedule '') =
      js ''We schedule '' @
      (if js ''We schedule '' \<noteq> [] \<and> last (js ''We schedule '') \<noteq> 0x20 then [0x20] else []) @
      js ''by text''"
    using ne d [of "js ''We schedule ''" exampleSpeech] unfolding f by blast
  then have "onresult exampleSpeech (js ''We schedule '') = js ''We schedule by text''"
    by (simp add: js_def)
  moreover have "onresult exampleSpeech [] =
      [] @ (if [] \<noteq> [] \<and> last [] \<noteq> (0x20 :: code_unit) then [0x20] else []) @ js ''by text''"
    using ne d [of "[]" exampleSpeech] unfolding f by simp
  then have "onresult exampleSpeech [] = js ''by text''"
    by simp
  moreover have "onresult (exampleSpeech\<lparr>resultIndex := 2\<rparr>) (js ''We schedule'') = js ''We schedule''"
    using d [of "js ''We schedule''" "exampleSpeech\<lparr>resultIndex := 2\<rparr>"] unfolding g by blast
  moreover have "prefix (js ''We schedule'') (onresult exampleSpeech (js ''We schedule''))"
    using d [of "js ''We schedule''" exampleSpeech] by blast
  ultimately show ?thesis by simp
qed

end
